theory Spec2Isabelle
  imports Main "HOL-Library.Sublist"
begin

section \<open>Values of the plugin framework\<close>

text \<open>
  A \<^verbatim>\<open>types.String\<close> of the plugin framework is null, unknown or a known string;
  \<^verbatim>\<open>ValueString()\<close> of a null or unknown value is the empty string.
\<close>

datatype tfString = StringNull | StringUnknown | StringValue string

fun IsNull :: "tfString \<Rightarrow> bool" where
  "IsNull StringNull = True"
| "IsNull StringUnknown = False"
| "IsNull (StringValue s) = False"

fun IsUnknown :: "tfString \<Rightarrow> bool" where
  "IsUnknown StringNull = False"
| "IsUnknown StringUnknown = True"
| "IsUnknown (StringValue s) = False"

fun ValueString :: "tfString \<Rightarrow> string" where
  "ValueString StringNull = ''''"
| "ValueString StringUnknown = ''''"
| "ValueString (StringValue s) = s"

datatype tfBool = BoolNull | BoolUnknown | BoolValue bool

text \<open>
  Diagnostics: an error has a summary and a detail, an attribute error also the root path
  of the attribute it is attributed to. Warnings exist in the framework and do not count
  for \<^verbatim>\<open>HasError\<close>.
\<close>

datatype diag =
    ErrorDiag string string
  | AttributeErrorDiag string string string
  | WarningDiag string string

fun isError :: "diag \<Rightarrow> bool" where
  "isError (ErrorDiag s d) = True"
| "isError (AttributeErrorDiag p s d) = True"
| "isError (WarningDiag s d) = False"

fun HasError :: "diag list \<Rightarrow> bool" where
  "HasError [] = False"
| "HasError (d # ds) = (isError d \<or> HasError ds)"

text \<open>The result of \<^verbatim>\<open>req.Plan.Get\<close>, \<^verbatim>\<open>req.State.Get\<close> and \<^verbatim>\<open>req.Config.Get\<close>:
  the diagnostics of the decoding and the decoded model.\<close>

type_synonym 'm tfsdkData = "diag list \<times> 'm"

section \<open>The remote API\<close>

text \<open>An error of the client library is represented by its message, \<^verbatim>\<open>err.Error()\<close>.\<close>

type_synonym err = string

record Folder =
  Folder_ID :: string
  Folder_Name :: string
  Folder_FolderParentID :: string
  Folder_Personal :: bool

record Resource =
  Resource_ID :: string
  Resource_Name :: string
  Resource_Description :: string
  Resource_Username :: string
  Resource_URI :: string
  Resource_FolderParentID :: string

record Group =
  Group_ID :: string
  Group_Name :: string

record ShareOperation =
  Share_Type :: nat
  Share_ARO :: string
  Share_AROID :: string

text \<open>
  Every call the adapters make on the client library is recorded, in order, with its
  arguments. \<^verbatim>\<open>helper.CreateResource\<close> takes folder id, name, username, uri, password
  and description, in this order.
\<close>

datatype Call =
    NewClientCall string string string
  | LoginCall
  | GetFolderCall string
  | GetFoldersCall
  | CreateFolderCall Folder
  | DeleteFolderCall string
  | GetResourceCall string
  | CreateResourceCall string string string string string string
  | DeleteResourceCall string
  | GetGroupsCall
  | ShareResourceCall string "ShareOperation list"

text \<open>
  The client library and the server behind it are outside the repository: the client is a
  record of operations over an arbitrary remote state \<open>'r\<close>, each returning its Go result
  (\<open>Inl\<close> the error, or \<open>Some\<close> error for the calls that return only an error) and the
  remote state after the call.
\<close>

record 'r Client =
  GetFolder :: "string \<Rightarrow> 'r \<Rightarrow> (err + Folder) \<times> 'r"
  GetFolders :: "'r \<Rightarrow> (err + Folder list) \<times> 'r"
  CreateFolder :: "Folder \<Rightarrow> 'r \<Rightarrow> (err + Folder) \<times> 'r"
  DeleteFolder :: "string \<Rightarrow> 'r \<Rightarrow> err option \<times> 'r"
  GetResource :: "string \<Rightarrow> 'r \<Rightarrow> (err + Resource) \<times> 'r"
  CreateResource ::
    "string \<Rightarrow> string \<Rightarrow> string \<Rightarrow> string \<Rightarrow> string \<Rightarrow> string \<Rightarrow> 'r \<Rightarrow> (err + string) \<times> 'r"
  DeleteResource :: "string \<Rightarrow> 'r \<Rightarrow> err option \<times> 'r"
  GetGroups :: "'r \<Rightarrow> (err + Group list) \<times> 'r"
  ShareResource :: "string \<Rightarrow> ShareOperation list \<Rightarrow> 'r \<Rightarrow> err option \<times> 'r"

text \<open>The world an operation runs in: the remote state and the calls made so far.\<close>

record 'r World =
  remote :: 'r
  calls :: "Call list"

definition perform :: "Call \<Rightarrow> ('r \<Rightarrow> 'a \<times> 'r) \<Rightarrow> 'r World \<Rightarrow> 'a \<times> 'r World" where
  "perform c f w =
     (case f (remote w) of (res, r') \<Rightarrow> (res, \<lparr>remote = r', calls = calls w @ [c]\<rparr>))"

definition doGetFolder :: "'r Client \<Rightarrow> string \<Rightarrow> 'r World \<Rightarrow> (err + Folder) \<times> 'r World" where
  "doGetFolder c i = perform (GetFolderCall i) (GetFolder c i)"

definition doGetFolders :: "'r Client \<Rightarrow> 'r World \<Rightarrow> (err + Folder list) \<times> 'r World" where
  "doGetFolders c = perform GetFoldersCall (GetFolders c)"

definition doCreateFolder :: "'r Client \<Rightarrow> Folder \<Rightarrow> 'r World \<Rightarrow> (err + Folder) \<times> 'r World" where
  "doCreateFolder c f = perform (CreateFolderCall f) (CreateFolder c f)"

definition doDeleteFolder :: "'r Client \<Rightarrow> string \<Rightarrow> 'r World \<Rightarrow> err option \<times> 'r World" where
  "doDeleteFolder c i = perform (DeleteFolderCall i) (DeleteFolder c i)"

definition doGetResource :: "'r Client \<Rightarrow> string \<Rightarrow> 'r World \<Rightarrow> (err + Resource) \<times> 'r World" where
  "doGetResource c i = perform (GetResourceCall i) (GetResource c i)"

definition doCreateResource ::
  "'r Client \<Rightarrow> string \<Rightarrow> string \<Rightarrow> string \<Rightarrow> string \<Rightarrow> string \<Rightarrow> string \<Rightarrow> 'r World
     \<Rightarrow> (err + string) \<times> 'r World" where
  "doCreateResource c fid n u uri pw d =
     perform (CreateResourceCall fid n u uri pw d) (CreateResource c fid n u uri pw d)"

definition doDeleteResource :: "'r Client \<Rightarrow> string \<Rightarrow> 'r World \<Rightarrow> err option \<times> 'r World" where
  "doDeleteResource c i = perform (DeleteResourceCall i) (DeleteResource c i)"

definition doGetGroups :: "'r Client \<Rightarrow> 'r World \<Rightarrow> (err + Group list) \<times> 'r World" where
  "doGetGroups c = perform GetGroupsCall (GetGroups c)"

definition doShareResource ::
  "'r Client \<Rightarrow> string \<Rightarrow> ShareOperation list \<Rightarrow> 'r World \<Rightarrow> err option \<times> 'r World" where
  "doShareResource c i shares = perform (ShareResourceCall i shares) (ShareResource c i shares)"

section \<open>Responses\<close>

text \<open>
  The response of a create, read or update: its diagnostics and the state it carries,
  \<open>None\<close> when the resource is absent from the tracked state. The handlers receive the
  response as the framework prepared it and return it updated; a handler that returns
  before \<^verbatim>\<open>resp.State.Set\<close> leaves the state of the response as it received it.
  \<^verbatim>\<open>resp.State.Set\<close> itself is taken to succeed without diagnostics.
\<close>

record 'm Response =
  Diagnostics :: "diag list"
  State :: "'m option"

definition Append :: "diag list \<Rightarrow> 'm Response \<Rightarrow> 'm Response" where
  "Append ds resp = resp\<lparr>Diagnostics := Diagnostics resp @ ds\<rparr>"

definition AddError :: "string \<Rightarrow> string \<Rightarrow> 'm Response \<Rightarrow> 'm Response" where
  "AddError summary detail resp = Append [ErrorDiag summary detail] resp"

definition Set_State :: "'m \<Rightarrow> 'm Response \<Rightarrow> 'm Response" where
  "Set_State m resp = resp\<lparr>State := Some m\<rparr>"

definition RemoveResource :: "'m Response \<Rightarrow> 'm Response" where
  "RemoveResource resp = resp\<lparr>State := None\<rparr>"

section \<open>Name resolution\<close>

text \<open>
  The loop \<^verbatim>\<open>for _, folder := range folders { if folder.Name == name { id = folder.ID; break } }\<close>
  over a variable that starts as the empty string.
\<close>

fun folderIDByName :: "string \<Rightarrow> Folder list \<Rightarrow> string" where
  "folderIDByName name [] = ''''"
| "folderIDByName name (folder # folders) =
     (if Folder_Name folder = name then Folder_ID folder else folderIDByName name folders)"

fun groupIDByName :: "string \<Rightarrow> Group list \<Rightarrow> string" where
  "groupIDByName name [] = ''''"
| "groupIDByName name (grp # grps) =
     (if Group_Name grp = name then Group_ID grp else groupIDByName name grps)"

text \<open>The loop of the secret read: the name of the first folder with the given id, if any.\<close>

fun folderNameByID :: "string \<Rightarrow> Folder list \<Rightarrow> string option" where
  "folderNameByID fid [] = None"
| "folderNameByID fid (folder # folders) =
     (if Folder_ID folder = fid then Some (Folder_Name folder) else folderNameByID fid folders)"

section \<open>The folder resource\<close>

record FolderResourceModel =
  FM_ID :: tfString
  FM_Name :: tfString
  FM_Personal :: tfBool
  FM_FolderParent :: tfString

definition quoted :: "string \<Rightarrow> string" where
  "quoted s = [CHR 0x27] @ s @ [CHR 0x27]"

text \<open>
  The block \<^verbatim>\<open>// Get parent folder ID if specified\<close> of the two creates (the folder's
  and the secret's, which differ in the message only, \<open>what\<close>): the folders are listed and
  scanned for the name, and a name that resolves to no id is an error. \<open>Inl\<close> is an early
  return of the handler, \<open>Inr\<close> the resolved id.
\<close>

definition resolveFolder_Create ::
  "'r Client \<Rightarrow> string \<Rightarrow> tfString \<Rightarrow> 'm Response \<Rightarrow> 'r World
     \<Rightarrow> ('m Response \<times> 'r World) + (string \<times> 'r World)" where
  "resolveFolder_Create c what folderParent resp w =
     (if \<not> IsNull folderParent \<and> \<not> IsUnknown folderParent then
        (case doGetFolders c w of
           (Inl e, w1) \<Rightarrow> Inl (AddError ''Cannot get folders'' e resp, w1)
         | (Inr folders, w1) \<Rightarrow>
             (let parentFolderID = folderIDByName (ValueString folderParent) folders in
              if parentFolderID = '''' then
                Inl (AddError ''Validation Error''
                       (what @ quoted (ValueString folderParent) @ '' not found'') resp, w1)
              else Inr (parentFolderID, w1)))
      else Inr ('''', w))"

text \<open>
  The same block in the recreation branch of the two updates: it has no check of the
  resolved id.
\<close>

definition resolveFolder_Update ::
  "'r Client \<Rightarrow> tfString \<Rightarrow> 'm Response \<Rightarrow> 'r World
     \<Rightarrow> ('m Response \<times> 'r World) + (string \<times> 'r World)" where
  "resolveFolder_Update c folderParent resp w =
     (if \<not> IsNull folderParent \<and> \<not> IsUnknown folderParent then
        (case doGetFolders c w of
           (Inl e, w1) \<Rightarrow> Inl (AddError ''Cannot get folders'' e resp, w1)
         | (Inr folders, w1) \<Rightarrow> Inr (folderIDByName (ValueString folderParent) folders, w1))
      else Inr ('''', w))"

definition FolderResource_Create ::
  "'r Client \<Rightarrow> FolderResourceModel tfsdkData \<Rightarrow> FolderResourceModel Response \<Rightarrow> 'r World
     \<Rightarrow> FolderResourceModel Response \<times> 'r World" where
  "FolderResource_Create c reqPlan resp0 w =
     (let diags = fst reqPlan; plan = snd reqPlan;
          resp = Append diags resp0 in
      if HasError (Diagnostics resp) then (resp, w)
      else if ValueString (FM_Name plan) = '''' then
        (AddError ''Validation Error'' ''Name cannot be empty'' resp, w)
      else
        (case resolveFolder_Create c ''Parent folder '' (FM_FolderParent plan) resp w of
          Inl ret \<Rightarrow> ret
        | Inr (parentFolderID, w1) \<Rightarrow>
            (let folder = \<lparr>Folder_ID = '''', Folder_Name = ValueString (FM_Name plan),
                           Folder_FolderParentID = parentFolderID, Folder_Personal = False\<rparr> in
             (case doCreateFolder c folder w1 of
                (Inl e, w2) \<Rightarrow>
                  (AddError ''Error creating folder''
                     (''Could not create folder, unexpected error: '' @ e) resp, w2)
              | (Inr createdFolder, w2) \<Rightarrow>
                  (let plan = plan\<lparr>FM_ID := StringValue (Folder_ID createdFolder),
                                   FM_Personal := BoolValue (Folder_Personal createdFolder)\<rparr> in
                   (Set_State plan resp, w2))))))"

definition FolderResource_Read ::
  "'r Client \<Rightarrow> FolderResourceModel tfsdkData \<Rightarrow> FolderResourceModel Response \<Rightarrow> 'r World
     \<Rightarrow> FolderResourceModel Response \<times> 'r World" where
  "FolderResource_Read c reqState resp0 w =
     (let diags = fst reqState; state = snd reqState;
          resp = Append diags resp0 in
      if HasError (Diagnostics resp) then (resp, w)
      else
        (case doGetFolder c (ValueString (FM_ID state)) w of
           (Inl e, w1) \<Rightarrow>
             (AddError ''Error reading folder''
                (''Could not read folder, unexpected error: '' @ e) resp, w1)
         | (Inr folder, w1) \<Rightarrow>
             (let state = state\<lparr>FM_Name := StringValue (Folder_Name folder),
                               FM_Personal := BoolValue (Folder_Personal folder)\<rparr> in
              if Folder_FolderParentID folder \<noteq> '''' then
                (case doGetFolder c (Folder_FolderParentID folder) w1 of
                   (Inl e, w2) \<Rightarrow> (Set_State state resp, w2)
                 | (Inr parentFolder, w2) \<Rightarrow>
                     (Set_State (state\<lparr>FM_FolderParent := StringValue (Folder_Name parentFolder)\<rparr>)
                        resp, w2))
              else (Set_State (state\<lparr>FM_FolderParent := StringNull\<rparr>) resp, w1))))"

text \<open>
  The recreation branch of the folder update (the body of \<^verbatim>\<open>if needsRecreation\<close>):
  \<open>Inl\<close> is an early return of the handler, \<open>Inr\<close> the state with the new id.
\<close>

definition FolderResource_Update_recreate ::
  "'r Client \<Rightarrow> FolderResourceModel \<Rightarrow> FolderResourceModel \<Rightarrow> FolderResourceModel Response
     \<Rightarrow> 'r World \<Rightarrow> (FolderResourceModel Response \<times> 'r World) + (FolderResourceModel \<times> 'r World)" where
  "FolderResource_Update_recreate c plan state resp w1 =
     (case doDeleteFolder c (ValueString (FM_ID state)) w1 of
        (Some e, w2) \<Rightarrow>
          Inl (AddError ''Error deleting old folder''
                 (''Could not delete old folder, unexpected error: '' @ e) resp, w2)
      | (None, w2) \<Rightarrow>
          (case resolveFolder_Update c (FM_FolderParent plan) resp w2 of
             Inl ret \<Rightarrow> Inl ret
           | Inr (parentFolderID, w3) \<Rightarrow>
               (let folder = \<lparr>Folder_ID = '''', Folder_Name = ValueString (FM_Name plan),
                              Folder_FolderParentID = parentFolderID, Folder_Personal = False\<rparr> in
                (case doCreateFolder c folder w3 of
                   (Inl e, w4) \<Rightarrow> Inl (AddError ''Cannot recreate folder'' e resp, w4)
                 | (Inr createdFolder, w4) \<Rightarrow>
                     Inr (state\<lparr>FM_ID := StringValue (Folder_ID createdFolder),
                                FM_Personal := BoolValue (Folder_Personal createdFolder)\<rparr>, w4)))))"

text \<open>The value of \<^verbatim>\<open>needsRecreation\<close> after the two comparisons of the folder update.\<close>

definition FolderResource_needsRecreation ::
  "FolderResourceModel \<Rightarrow> FolderResourceModel \<Rightarrow> Folder \<Rightarrow> bool" where
  "FolderResource_needsRecreation plan state currentFolder =
     (ValueString (FM_Name plan) \<noteq> Folder_Name currentFolder
      \<or> ValueString (FM_FolderParent plan) \<noteq> ValueString (FM_FolderParent state))"

definition FolderResource_Update ::
  "'r Client \<Rightarrow> FolderResourceModel tfsdkData \<Rightarrow> FolderResourceModel tfsdkData
     \<Rightarrow> FolderResourceModel Response \<Rightarrow> 'r World \<Rightarrow> FolderResourceModel Response \<times> 'r World" where
  "FolderResource_Update c reqPlan reqState resp0 w =
     (let diags = fst reqPlan; plan = snd reqPlan;
          resp = Append diags resp0 in
      if HasError (Diagnostics resp) then (resp, w)
      else
        (let diags = fst reqState; state = snd reqState;
             resp = Append diags resp in
         if HasError (Diagnostics resp) then (resp, w)
         else
           (case doGetFolder c (ValueString (FM_ID state)) w of
              (Inl e, w1) \<Rightarrow>
                (AddError ''Error reading current folder''
                   (''Could not read current folder, unexpected error: '' @ e) resp, w1)
            | (Inr currentFolder, w1) \<Rightarrow>
                (let needsRecreation = FolderResource_needsRecreation plan state currentFolder in
                 (case (if needsRecreation then FolderResource_Update_recreate c plan state resp w1
                        else Inr (state, w1)) of
                    Inl ret \<Rightarrow> ret
                  | Inr (state, w5) \<Rightarrow>
                      (let state = state\<lparr>FM_Name := FM_Name plan,
                                        FM_FolderParent := FM_FolderParent plan\<rparr> in
                       (Set_State state resp, w5)))))))"

definition FolderResource_Delete ::
  "'r Client \<Rightarrow> FolderResourceModel tfsdkData \<Rightarrow> FolderResourceModel Response \<Rightarrow> 'r World
     \<Rightarrow> FolderResourceModel Response \<times> 'r World" where
  "FolderResource_Delete c reqState resp0 w =
     (let diags = fst reqState; state = snd reqState;
          resp = Append diags resp0 in
      if HasError (Diagnostics resp) then (resp, w)
      else
        (case doDeleteFolder c (ValueString (FM_ID state)) w of
           (Some e, w1) \<Rightarrow>
             (AddError ''Error deleting folder''
                (''Could not delete folder, unexpected error: '' @ e) resp, w1)
         | (None, w1) \<Rightarrow> (resp, w1)))"

section \<open>The secret-entry resource\<close>

record PasswordResourceModel =
  PM_ID :: tfString
  PM_Name :: tfString
  PM_Description :: tfString
  PM_Username :: tfString
  PM_URI :: tfString
  PM_Password :: tfString
  PM_FolderParent :: tfString
  PM_ShareGroup :: tfString

text \<open>
  \<^verbatim>\<open>regexp.MustCompile(`^https?://.*`).MatchString(uri)\<close>: the pattern is anchored at
  the start of the text and its tail \<^verbatim>\<open>.*\<close> also matches the empty string, so it
  matches the texts that start with \<^verbatim>\<open>http://\<close> or \<^verbatim>\<open>https://\<close>.
\<close>

definition MatchString_http :: "string \<Rightarrow> bool" where
  "MatchString_http uri = (prefix ''http://'' uri \<or> prefix ''https://'' uri)"

text \<open>
  The block \<^verbatim>\<open>// Share with group if specified\<close>, the same text in create and in the
  recreation branch of update: \<open>Inl\<close> is an early return of the handler.
\<close>

definition shareWithGroup ::
  "'r Client \<Rightarrow> PasswordResourceModel \<Rightarrow> string \<Rightarrow> PasswordResourceModel Response \<Rightarrow> 'r World
     \<Rightarrow> (PasswordResourceModel Response \<times> 'r World) + 'r World" where
  "shareWithGroup c plan resourceID resp w =
     (if \<not> IsNull (PM_ShareGroup plan) \<and> \<not> IsUnknown (PM_ShareGroup plan) then
        (case doGetGroups c w of
           (Inl e, w1) \<Rightarrow> Inl (AddError ''Cannot get groups'' e resp, w1)
         | (Inr groups, w1) \<Rightarrow>
             (let groupID = groupIDByName (ValueString (PM_ShareGroup plan)) groups in
              if groupID \<noteq> '''' then
                (let shares = [\<lparr>Share_Type = 7, Share_ARO = ''Group'', Share_AROID = groupID\<rparr>] in
                 (case doShareResource c resourceID shares w1 of
                    (Some e, w2) \<Rightarrow> Inl (AddError ''Cannot share resource'' e resp, w2)
                  | (None, w2) \<Rightarrow> Inr w2))
              else Inr w1))
      else Inr w)"

definition PasswordResource_Create ::
  "'r Client \<Rightarrow> PasswordResourceModel tfsdkData \<Rightarrow> PasswordResourceModel Response \<Rightarrow> 'r World
     \<Rightarrow> PasswordResourceModel Response \<times> 'r World" where
  "PasswordResource_Create c reqPlan resp0 w =
     (let diags = fst reqPlan; plan = snd reqPlan;
          resp = Append diags resp0 in
      if HasError (Diagnostics resp) then (resp, w)
      else if ValueString (PM_Name plan) = '''' then
        (AddError ''Validation Error'' ''Name cannot be empty'' resp, w)
      else if ValueString (PM_Username plan) = '''' then
        (AddError ''Validation Error'' ''Username cannot be empty'' resp, w)
      else if ValueString (PM_URI plan) = '''' then
        (AddError ''Validation Error'' ''URI cannot be empty'' resp, w)
      else if ValueString (PM_Password plan) = '''' then
        (AddError ''Validation Error'' ''Password cannot be empty'' resp, w)
      else
        (let uri = ValueString (PM_URI plan) in
         if \<not> MatchString_http uri then
           (AddError ''Validation Error'' ''URI must be a valid HTTP or HTTPS URL'' resp, w)
         else
           (case resolveFolder_Create c ''Folder '' (PM_FolderParent plan) resp w of
              Inl ret \<Rightarrow> ret
            | Inr (folderID, w1) \<Rightarrow>
                (case doCreateResource c folderID (ValueString (PM_Name plan))
                        (ValueString (PM_Username plan)) (ValueString (PM_URI plan))
                        (ValueString (PM_Password plan)) (ValueString (PM_Description plan)) w1 of
                   (Inl e, w2) \<Rightarrow> (AddError ''Cannot create resource'' e resp, w2)
                 | (Inr resourceID, w2) \<Rightarrow>
                     (case shareWithGroup c plan resourceID resp w2 of
                        Inl ret \<Rightarrow> ret
                      | Inr w3 \<Rightarrow>
                          (let plan = plan\<lparr>PM_ID := StringValue resourceID\<rparr> in
                           (Set_State plan resp, w3)))))))"

text \<open>
  \<^verbatim>\<open>isResourceNotFoundError\<close> is called by the read and its declaration is not in the
  files of the resources: the predicate is a parameter of the read.
\<close>

definition PasswordResource_Read ::
  "(err \<Rightarrow> bool) \<Rightarrow> 'r Client \<Rightarrow> PasswordResourceModel tfsdkData \<Rightarrow> PasswordResourceModel Response
     \<Rightarrow> 'r World \<Rightarrow> PasswordResourceModel Response \<times> 'r World" where
  "PasswordResource_Read isResourceNotFoundError c reqState resp0 w =
     (let diags = fst reqState; state = snd reqState;
          resp = Append diags resp0 in
      if HasError (Diagnostics resp) then (resp, w)
      else
        (case doGetResource c (ValueString (PM_ID state)) w of
           (Inl e, w1) \<Rightarrow>
             (if isResourceNotFoundError e then (RemoveResource resp, w1)
              else
                (AddError ''Error reading password''
                   (''Could not read password, unexpected error: '' @ e) resp, w1))
         | (Inr resource, w1) \<Rightarrow>
             (let state = state\<lparr>PM_Name := StringValue (Resource_Name resource),
                               PM_Description := StringValue (Resource_Description resource),
                               PM_Username := StringValue (Resource_Username resource),
                               PM_URI := StringValue (Resource_URI resource)\<rparr> in
              if Resource_FolderParentID resource \<noteq> '''' then
                (case doGetFolders c w1 of
                   (Inl e, w2) \<Rightarrow> (Set_State state resp, w2)
                 | (Inr folders, w2) \<Rightarrow>
                     (case folderNameByID (Resource_FolderParentID resource) folders of
                        None \<Rightarrow> (Set_State state resp, w2)
                      | Some name \<Rightarrow>
                          (Set_State (state\<lparr>PM_FolderParent := StringValue name\<rparr>) resp, w2)))
              else (Set_State state resp, w1))))"

text \<open>
  The recreation branch of the secret update (the body of \<^verbatim>\<open>if needsRecreation\<close>):
  \<open>Inl\<close> is an early return of the handler, \<open>Inr\<close> the state with the new id.
\<close>

definition PasswordResource_Update_recreate ::
  "'r Client \<Rightarrow> PasswordResourceModel \<Rightarrow> PasswordResourceModel \<Rightarrow> PasswordResourceModel Response
     \<Rightarrow> 'r World
     \<Rightarrow> (PasswordResourceModel Response \<times> 'r World) + (PasswordResourceModel \<times> 'r World)" where
  "PasswordResource_Update_recreate c plan state resp w1 =
     (case doDeleteResource c (ValueString (PM_ID state)) w1 of
        (Some e, w2) \<Rightarrow>
          Inl (AddError ''Error deleting old resource''
                 (''Could not delete old resource, unexpected error: '' @ e) resp, w2)
      | (None, w2) \<Rightarrow>
          (case resolveFolder_Update c (PM_FolderParent plan) resp w2 of
             Inl ret \<Rightarrow> Inl ret
           | Inr (folderID, w3) \<Rightarrow>
               (case doCreateResource c folderID (ValueString (PM_Name plan))
                       (ValueString (PM_Username plan)) (ValueString (PM_URI plan))
                       (ValueString (PM_Password plan)) (ValueString (PM_Description plan)) w3 of
                  (Inl e, w4) \<Rightarrow> Inl (AddError ''Cannot recreate resource'' e resp, w4)
                | (Inr resourceID, w4) \<Rightarrow>
                    (case shareWithGroup c plan resourceID resp w4 of
                       Inl ret \<Rightarrow> Inl ret
                     | Inr w5 \<Rightarrow> Inr (state\<lparr>PM_ID := StringValue resourceID\<rparr>, w5)))))"

text \<open>The value of \<^verbatim>\<open>needsRecreation\<close> after the six comparisons of the secret update.\<close>

definition PasswordResource_needsRecreation ::
  "PasswordResourceModel \<Rightarrow> PasswordResourceModel \<Rightarrow> Resource \<Rightarrow> bool" where
  "PasswordResource_needsRecreation plan state currentResource =
     (ValueString (PM_Name plan) \<noteq> Resource_Name currentResource
      \<or> ValueString (PM_Description plan) \<noteq> Resource_Description currentResource
      \<or> ValueString (PM_Username plan) \<noteq> Resource_Username currentResource
      \<or> ValueString (PM_URI plan) \<noteq> Resource_URI currentResource
      \<or> ValueString (PM_Password plan) \<noteq> ValueString (PM_Password state)
      \<or> ValueString (PM_FolderParent plan) \<noteq> ValueString (PM_FolderParent state))"

definition PasswordResource_Update ::
  "'r Client \<Rightarrow> PasswordResourceModel tfsdkData \<Rightarrow> PasswordResourceModel tfsdkData
     \<Rightarrow> PasswordResourceModel Response \<Rightarrow> 'r World \<Rightarrow> PasswordResourceModel Response \<times> 'r World" where
  "PasswordResource_Update c reqPlan reqState resp0 w =
     (let diags = fst reqPlan; plan = snd reqPlan;
          resp = Append diags resp0 in
      if HasError (Diagnostics resp) then (resp, w)
      else
        (let diags = fst reqState; state = snd reqState;
             resp = Append diags resp in
         if HasError (Diagnostics resp) then (resp, w)
         else
           (case doGetResource c (ValueString (PM_ID state)) w of
              (Inl e, w1) \<Rightarrow>
                (AddError ''Error reading current resource''
                   (''Could not read current resource, unexpected error: '' @ e) resp, w1)
            | (Inr currentResource, w1) \<Rightarrow>
                (let needsRecreation = PasswordResource_needsRecreation plan state currentResource in
                 (case (if needsRecreation then PasswordResource_Update_recreate c plan state resp w1
                        else Inr (state, w1)) of
                    Inl ret \<Rightarrow> ret
                  | Inr (state, w6) \<Rightarrow>
                      (let state = state\<lparr>PM_Name := PM_Name plan,
                                        PM_Description := PM_Description plan,
                                        PM_Username := PM_Username plan,
                                        PM_URI := PM_URI plan,
                                        PM_Password := PM_Password plan,
                                        PM_FolderParent := PM_FolderParent plan,
                                        PM_ShareGroup := PM_ShareGroup plan\<rparr> in
                       (Set_State state resp, w6)))))))"

definition PasswordResource_Delete ::
  "'r Client \<Rightarrow> PasswordResourceModel tfsdkData \<Rightarrow> PasswordResourceModel Response \<Rightarrow> 'r World
     \<Rightarrow> PasswordResourceModel Response \<times> 'r World" where
  "PasswordResource_Delete c reqState resp0 w =
     (let diags = fst reqState; state = snd reqState;
          resp = Append diags resp0 in
      if HasError (Diagnostics resp) then (resp, w)
      else
        (case doDeleteResource c (ValueString (PM_ID state)) w of
           (Some e, w1) \<Rightarrow>
             (AddError ''Error deleting password''
                (''Could not delete password, unexpected error: '' @ e) resp, w1)
         | (None, w1) \<Rightarrow> (resp, w1)))"

section \<open>The provider bootstrap\<close>

record PassboltProviderModel =
  BaseURL :: tfString
  PrivateKey :: tfString
  Passphrase :: tfString

text \<open>
  The response of the provider configuration: its diagnostics and the client handed to the
  data sources and to the resources, \<open>None\<close> as long as none is set.
\<close>

record 'c ConfigureResponse =
  ConfigureDiagnostics :: "diag list"
  DataSourceData :: "'c option"
  ResourceData :: "'c option"

definition AddAttributeError ::
  "string \<Rightarrow> string \<Rightarrow> string \<Rightarrow> 'c ConfigureResponse \<Rightarrow> 'c ConfigureResponse" where
  "AddAttributeError path summary detail resp =
     resp\<lparr>ConfigureDiagnostics := ConfigureDiagnostics resp @ [AttributeErrorDiag path summary detail]\<rparr>"

definition AddConfigureError :: "string \<Rightarrow> string \<Rightarrow> 'c ConfigureResponse \<Rightarrow> 'c ConfigureResponse" where
  "AddConfigureError summary detail resp =
     resp\<lparr>ConfigureDiagnostics := ConfigureDiagnostics resp @ [ErrorDiag summary detail]\<rparr>"

text \<open>
  The client library's constructor and login, over clients \<open>'c\<close> and the remote state
  \<open>'r\<close>. \<^verbatim>\<open>api.NewClient(nil, "", baseURL, privateKey, passphrase)\<close> is given its last
  three arguments.
\<close>

record ('c, 'r) Api =
  NewClient :: "string \<Rightarrow> string \<Rightarrow> string \<Rightarrow> 'r \<Rightarrow> (err + 'c) \<times> 'r"
  Login :: "'c \<Rightarrow> 'r \<Rightarrow> err option \<times> 'r"

definition unknownDetail :: "string \<Rightarrow> string" where
  "unknownDetail what =
     ''The provider cannot create the Passbolt API client as there is an unknown configuration value for the Passbolt ''
       @ what @ ''. ''
       @ ''Either target apply the source of the value first, or set the value statically in the configuration.''"

definition missingDetail :: "string \<Rightarrow> string \<Rightarrow> string \<Rightarrow> string" where
  "missingDetail what attr var =
     ''The provider cannot create the Passbolt API client as there is a missing or empty value for the Passbolt ''
       @ what @ ''. ''
       @ ''Set the '' @ attr @ '' value in the configuration or use the '' @ var @ '' environment variable. ''
       @ ''If either is already set, ensure the value is not empty.''"

text \<open>
  The block \<^verbatim>\<open>// Validate provider configuration\<close>: three consecutive
  \<^verbatim>\<open>if config.X.IsUnknown() { resp.Diagnostics.AddAttributeError(...) }\<close>.
\<close>

definition reportUnknown :: "PassboltProviderModel \<Rightarrow> 'c ConfigureResponse \<Rightarrow> 'c ConfigureResponse" where
  "reportUnknown config resp0 =
     (let resp = (if IsUnknown (BaseURL config) then
                    AddAttributeError ''base_url'' ''Unknown Passbolt Base URL''
                      (unknownDetail ''base URL'') resp0
                  else resp0);
          resp = (if IsUnknown (PrivateKey config) then
                    AddAttributeError ''private_key'' ''Unknown Passbolt Private Key''
                      (unknownDetail ''private key'') resp
                  else resp);
          resp = (if IsUnknown (Passphrase config) then
                    AddAttributeError ''passphrase'' ''Unknown Passbolt Passphrase''
                      (unknownDetail ''passphrase'') resp
                  else resp)
      in resp)"

text \<open>
  The block \<^verbatim>\<open>// If any of the expected configurations are missing, return errors with
  provider-specific guidance.\<close>: three consecutive
  \<^verbatim>\<open>if x == "" { resp.Diagnostics.AddAttributeError(...) }\<close>.
\<close>

definition reportMissing :: "string \<Rightarrow> string \<Rightarrow> string \<Rightarrow> 'c ConfigureResponse \<Rightarrow> 'c ConfigureResponse" where
  "reportMissing baseURL privateKey passphrase resp0 =
     (let resp = (if baseURL = '''' then
                    AddAttributeError ''base_url'' ''Missing Passbolt Base URL''
                      (missingDetail ''base URL'' ''base_url'' ''PASSBOLT_BASE_URL'') resp0
                  else resp0);
          resp = (if privateKey = '''' then
                    AddAttributeError ''private_key'' ''Missing Passbolt Private Key''
                      (missingDetail ''private key'' ''private_key'' ''PASSBOLT_PRIVATE_KEY'') resp
                  else resp);
          resp = (if passphrase = '''' then
                    AddAttributeError ''passphrase'' ''Missing Passbolt Passphrase''
                      (missingDetail ''passphrase'' ''passphrase'' ''PASSBOLT_PASSPHRASE'') resp
                  else resp)
      in resp)"

text \<open>
  \<^verbatim>\<open>os.Getenv\<close> is the argument \<open>Getenv\<close>: the value of a variable, the empty string for
  a variable that is not set.
\<close>

definition PassboltProvider_Configure ::
  "('c, 'r) Api \<Rightarrow> (string \<Rightarrow> string) \<Rightarrow> PassboltProviderModel tfsdkData \<Rightarrow> 'c ConfigureResponse
     \<Rightarrow> 'r World \<Rightarrow> 'c ConfigureResponse \<times> 'r World" where
  "PassboltProvider_Configure api Getenv reqConfig resp0 w =
     (let diags = fst reqConfig; config = snd reqConfig;
          resp = resp0\<lparr>ConfigureDiagnostics := ConfigureDiagnostics resp0 @ diags\<rparr> in
      if HasError (ConfigureDiagnostics resp) then (resp, w)
      else
        (let resp = reportUnknown config resp in
         if HasError (ConfigureDiagnostics resp) then (resp, w)
         else
           (let baseURL = Getenv ''PASSBOLT_BASE_URL'';
                privateKey = Getenv ''PASSBOLT_PRIVATE_KEY'';
                passphrase = Getenv ''PASSBOLT_PASSPHRASE'';
                baseURL = (if \<not> IsNull (BaseURL config) then ValueString (BaseURL config) else baseURL);
                privateKey = (if \<not> IsNull (PrivateKey config) then ValueString (PrivateKey config)
                              else privateKey);
                passphrase = (if \<not> IsNull (Passphrase config) then ValueString (Passphrase config)
                              else passphrase);
                resp = reportMissing baseURL privateKey passphrase resp in
            if HasError (ConfigureDiagnostics resp) then (resp, w)
            else
              (case perform (NewClientCall baseURL privateKey passphrase)
                      (NewClient api baseURL privateKey passphrase) w of
                 (Inl e, w1) \<Rightarrow>
                   (AddConfigureError ''Unable to create Passbolt API client''
                      (''Cannot create the Passbolt API client: '' @ e) resp, w1)
               | (Inr client, w1) \<Rightarrow>
                   (case perform LoginCall (Login api client) w1 of
                      (Some e, w2) \<Rightarrow>
                        (AddConfigureError ''Unable to login to Passbolt''
                           (''Cannot login to Passbolt: '' @ e) resp, w2)
                    | (None, w2) \<Rightarrow>
                        (resp\<lparr>DataSourceData := Some client, ResourceData := Some client\<rparr>, w2))))))"

section \<open>A client with fixed replies\<close>

text \<open>
  For the concrete instances: a client that answers every call with a reply fixed in
  advance, over a remote state that counts the calls it served.
\<close>

record Replies =
  onGetFolder :: "err + Folder"
  onGetFolders :: "err + Folder list"
  onCreateFolder :: "err + Folder"
  onDeleteFolder :: "err option"
  onGetResource :: "err + Resource"
  onCreateResource :: "err + string"
  onDeleteResource :: "err option"
  onGetGroups :: "err + Group list"
  onShareResource :: "err option"

definition fixedClient :: "Replies \<Rightarrow> nat Client" where
  "fixedClient rs =
     \<lparr>GetFolder = (\<lambda>i r. (onGetFolder rs, Suc r)),
      GetFolders = (\<lambda>r. (onGetFolders rs, Suc r)),
      CreateFolder = (\<lambda>f r. (onCreateFolder rs, Suc r)),
      DeleteFolder = (\<lambda>i r. (onDeleteFolder rs, Suc r)),
      GetResource = (\<lambda>i r. (onGetResource rs, Suc r)),
      CreateResource = (\<lambda>fid n u uri pw d r. (onCreateResource rs, Suc r)),
      DeleteResource = (\<lambda>i r. (onDeleteResource rs, Suc r)),
      GetGroups = (\<lambda>r. (onGetGroups rs, Suc r)),
      ShareResource = (\<lambda>i shares r. (onShareResource rs, Suc r))\<rparr>"

definition fixedApi :: "err + string \<Rightarrow> err option \<Rightarrow> (string, nat) Api" where
  "fixedApi client login =
     \<lparr>NewClient = (\<lambda>baseURL privateKey passphrase r. (client, Suc r)),
      Login = (\<lambda>c r. (login, Suc r))\<rparr>"

text \<open>A server with the folder Infra, the secret db in it and the group ops.\<close>

definition infra :: Folder where
  "infra = \<lparr>Folder_ID = ''f1'', Folder_Name = ''Infra'', Folder_FolderParentID = '''',
            Folder_Personal = False\<rparr>"

definition db :: Resource where
  "db = \<lparr>Resource_ID = ''r1'', Resource_Name = ''db'', Resource_Description = '''',
         Resource_Username = ''admin'', Resource_URI = ''https://db.example.com'',
         Resource_FolderParentID = ''f1''\<rparr>"

definition ops :: Group where
  "ops = \<lparr>Group_ID = ''g1'', Group_Name = ''ops''\<rparr>"

definition healthy :: Replies where
  "healthy =
     \<lparr>onGetFolder = Inr infra, onGetFolders = Inr [infra],
      onCreateFolder = Inr (infra\<lparr>Folder_ID := ''f2''\<rparr>), onDeleteFolder = None,
      onGetResource = Inr db, onCreateResource = Inr ''r2'', onDeleteResource = None,
      onGetGroups = Inr [ops], onShareResource = None\<rparr>"

definition start :: "nat World" where
  "start = \<lparr>remote = 0, calls = []\<rparr>"

text \<open>The tracked states and the plans of the concrete instances.\<close>

definition infraState :: FolderResourceModel where
  "infraState = \<lparr>FM_ID = StringValue ''f1'', FM_Name = StringValue ''Infra'',
                 FM_Personal = BoolValue False, FM_FolderParent = StringNull\<rparr>"

definition dbState :: PasswordResourceModel where
  "dbState = \<lparr>PM_ID = StringValue ''r1'', PM_Name = StringValue ''db'',
              PM_Description = StringNull, PM_Username = StringValue ''admin'',
              PM_URI = StringValue ''https://db.example.com'', PM_Password = StringValue ''x'',
              PM_FolderParent = StringValue ''Infra'', PM_ShareGroup = StringNull\<rparr>"

definition tracked :: "'m \<Rightarrow> 'm Response" where
  "tracked m = \<lparr>Diagnostics = [], State = Some m\<rparr>"

definition untracked :: "'m Response" where
  "untracked = \<lparr>Diagnostics = [], State = None\<rparr>"

definition newFolder :: "tfString \<Rightarrow> FolderResourceModel" where
  "newFolder parent = \<lparr>FM_ID = StringUnknown, FM_Name = StringValue ''Sub'',
                        FM_Personal = BoolValue False, FM_FolderParent = parent\<rparr>"

definition newSecret :: "tfString \<Rightarrow> tfString \<Rightarrow> PasswordResourceModel" where
  "newSecret parent grp = dbState\<lparr>PM_ID := StringUnknown, PM_FolderParent := parent,
                                  PM_ShareGroup := grp\<rparr>"

text \<open>The plan that changes the uri of the secret db and shares it with the group ops.\<close>

definition dbNewURI :: PasswordResourceModel where
  "dbNewURI = dbState\<lparr>PM_URI := StringValue ''https://db2.example.com'',
                       PM_ShareGroup := StringValue ''ops''\<rparr>"

section \<open>Auxiliary facts\<close>

lemma HasError_append: "HasError (xs @ ys) = (HasError xs \<or> HasError ys)"
  by (induction xs) auto

lemma perform_eq:
  "f (remote w) = (res, r') \<Longrightarrow> perform c f w = (res, \<lparr>remote = r', calls = calls w @ [c]\<rparr>)"
  by (simp add: perform_def)

text \<open>The scan returns the id of the first entity with the name, the empty string if none has it.\<close>

lemma folderIDByName_filter:
  "folderIDByName n fs =
     (case filter (\<lambda>f. Folder_Name f = n) fs of [] \<Rightarrow> '''' | f # rest \<Rightarrow> Folder_ID f)"
  by (induction fs) auto

lemma groupIDByName_filter:
  "groupIDByName n gs =
     (case filter (\<lambda>g. Group_Name g = n) gs of [] \<Rightarrow> '''' | g # rest \<Rightarrow> Group_ID g)"
  by (induction gs) auto

lemma specified_iff: "(\<not> IsNull v \<and> \<not> IsUnknown v) = (\<exists>n. v = StringValue n)"
  by (cases v) auto

text \<open>The calls of the blocks.\<close>

lemma resolveFolder_Update_calls:
  assumes "resolveFolder_Update c fp resp w = Inr (fid, w')"
  shows "calls w' = calls w @ (if \<not> IsNull fp \<and> \<not> IsUnknown fp then [GetFoldersCall] else [])"
proof (cases "\<not> IsNull fp \<and> \<not> IsUnknown fp")
  case True
  obtain res r' where g: "GetFolders c (remote w) = (res, r')"
    by (cases "GetFolders c (remote w)")
  with assms True show ?thesis
    by (cases res) (auto simp: resolveFolder_Update_def doGetFolders_def perform_eq)
next
  case False
  with assms show ?thesis
    by (auto simp: resolveFolder_Update_def)
qed

lemma resolveFolder_Create_calls:
  assumes "resolveFolder_Create c what fp resp w = Inr (fid, w')"
  shows "calls w' = calls w @ (if \<not> IsNull fp \<and> \<not> IsUnknown fp then [GetFoldersCall] else [])"
proof (cases "\<not> IsNull fp \<and> \<not> IsUnknown fp")
  case True
  obtain res r' where g: "GetFolders c (remote w) = (res, r')"
    by (cases "GetFolders c (remote w)")
  with assms True show ?thesis
    by (cases res) (auto simp: resolveFolder_Create_def doGetFolders_def perform_eq Let_def split: if_splits)
next
  case False
  with assms show ?thesis
    by (auto simp: resolveFolder_Create_def)
qed

lemma shareWithGroup_calls:
  assumes "shareWithGroup c plan rid resp w = Inr w'"
  shows "\<exists>ys. calls w' = calls w @ ys
           \<and> set ys \<subseteq> insert GetGroupsCall (range (ShareResourceCall rid))"
proof (cases "\<not> IsNull (PM_ShareGroup plan) \<and> \<not> IsUnknown (PM_ShareGroup plan)")
  case True
  obtain res r1 where g: "GetGroups c (remote w) = (res, r1)"
    by (cases "GetGroups c (remote w)")
  show ?thesis
  proof (cases res)
    case (Inl e)
    with assms True g show ?thesis
      by (simp add: shareWithGroup_def doGetGroups_def perform_eq)
  next
    case (Inr gs)
    let ?gid = "groupIDByName (ValueString (PM_ShareGroup plan)) gs"
    let ?w1 = "\<lparr>remote = r1, calls = calls w @ [GetGroupsCall]\<rparr>"
    let ?sh = "[\<lparr>Share_Type = 7, Share_ARO = ''Group'', Share_AROID = ?gid\<rparr>]"
    show ?thesis
    proof (cases "?gid = ''''")
      case True
      with assms \<open>\<not> IsNull (PM_ShareGroup plan) \<and> \<not> IsUnknown (PM_ShareGroup plan)\<close> g Inr
      have "w' = ?w1"
        by (simp add: shareWithGroup_def doGetGroups_def perform_eq)
      then show ?thesis by simp
    next
      case False
      obtain res2 r2 where s: "ShareResource c rid ?sh r1 = (res2, r2)"
        by (cases "ShareResource c rid ?sh r1")
      with assms \<open>\<not> IsNull (PM_ShareGroup plan) \<and> \<not> IsUnknown (PM_ShareGroup plan)\<close> g Inr False
      have "w' = \<lparr>remote = r2, calls = calls w @ [GetGroupsCall, ShareResourceCall rid ?sh]\<rparr>"
        by (cases res2)
           (simp_all add: shareWithGroup_def doGetGroups_def doShareResource_def perform_eq Let_def)
      then show ?thesis by simp
    qed
  qed
next
  case False
  with assms have "w' = w"
    by (auto simp: shareWithGroup_def)
  then show ?thesis by simp
qed

text \<open>The blocks return a value exactly when the calls they make succeed.\<close>

lemma resolveFolder_Update_Inr_iff:
  "resolveFolder_Update c fp resp w = Inr (fid, w') \<longleftrightarrow>
     (if \<not> IsNull fp \<and> \<not> IsUnknown fp then
        (\<exists>fs r'. GetFolders c (remote w) = (Inr fs, r')
           \<and> fid = folderIDByName (ValueString fp) fs
           \<and> w' = \<lparr>remote = r', calls = calls w @ [GetFoldersCall]\<rparr>)
      else fid = '''' \<and> w' = w)"
proof -
  obtain res r' where g: "GetFolders c (remote w) = (res, r')"
    by (cases "GetFolders c (remote w)")
  then show ?thesis
    by (cases res) (auto simp: resolveFolder_Update_def doGetFolders_def perform_eq)
qed

lemma resolveFolder_Create_Inr_iff:
  "resolveFolder_Create c what fp resp w = Inr (fid, w') \<longleftrightarrow>
     (if \<not> IsNull fp \<and> \<not> IsUnknown fp then
        (\<exists>fs r'. GetFolders c (remote w) = (Inr fs, r')
           \<and> fid = folderIDByName (ValueString fp) fs \<and> fid \<noteq> ''''
           \<and> w' = \<lparr>remote = r', calls = calls w @ [GetFoldersCall]\<rparr>)
      else fid = '''' \<and> w' = w)"
proof -
  obtain res r' where g: "GetFolders c (remote w) = (res, r')"
    by (cases "GetFolders c (remote w)")
  then show ?thesis
    by (cases res) (auto simp: resolveFolder_Create_def doGetFolders_def perform_eq Let_def)
qed

lemma shareWithGroup_fails_calls:
  assumes "shareWithGroup c plan rid resp w = Inl ret"
  shows "\<exists>ys. calls (snd ret) = calls w @ ys"
proof -
  obtain res r1 where g: "GetGroups c (remote w) = (res, r1)"
    by (cases "GetGroups c (remote w)")
  show ?thesis
  proof (cases res)
    case (Inl e)
    with assms g show ?thesis
      by (auto simp: shareWithGroup_def doGetGroups_def perform_eq split: if_splits)
  next
    case (Inr gs)
    let ?sh = "[\<lparr>Share_Type = 7, Share_ARO = ''Group'',
                 Share_AROID = groupIDByName (ValueString (PM_ShareGroup plan)) gs\<rparr>]"
    obtain res2 r2 where s: "ShareResource c rid ?sh r1 = (res2, r2)"
      by (cases "ShareResource c rid ?sh r1")
    with assms g Inr show ?thesis
      by (cases res2)
         (auto simp: shareWithGroup_def doGetGroups_def doShareResource_def perform_eq Let_def
            split: if_splits)
  qed
qed

lemma shareWithGroup_Inr_iff:
  "shareWithGroup c plan rid resp w = Inr w' \<longleftrightarrow>
     (if \<not> IsNull (PM_ShareGroup plan) \<and> \<not> IsUnknown (PM_ShareGroup plan) then
        (\<exists>gs r1. GetGroups c (remote w) = (Inr gs, r1)
           \<and> (if groupIDByName (ValueString (PM_ShareGroup plan)) gs = '''' then
                 w' = \<lparr>remote = r1, calls = calls w @ [GetGroupsCall]\<rparr>
               else
                 (\<exists>r2. ShareResource c rid
                          [\<lparr>Share_Type = 7, Share_ARO = ''Group'',
                            Share_AROID = groupIDByName (ValueString (PM_ShareGroup plan)) gs\<rparr>] r1
                        = (None, r2)
                    \<and> w' = \<lparr>remote = r2,
                            calls = calls w @ [GetGroupsCall,
                              ShareResourceCall rid
                                [\<lparr>Share_Type = 7, Share_ARO = ''Group'',
                                  Share_AROID = groupIDByName (ValueString (PM_ShareGroup plan)) gs\<rparr>]]\<rparr>)))
      else w' = w)"
proof -
  obtain res r1 where g: "GetGroups c (remote w) = (res, r1)"
    by (cases "GetGroups c (remote w)")
  show ?thesis
  proof (cases res)
    case (Inl e)
    with g show ?thesis
      by (auto simp: shareWithGroup_def doGetGroups_def perform_eq)
  next
    case (Inr gs)
    let ?sh = "[\<lparr>Share_Type = 7, Share_ARO = ''Group'',
                 Share_AROID = groupIDByName (ValueString (PM_ShareGroup plan)) gs\<rparr>]"
    obtain res2 r2 where s: "ShareResource c rid ?sh r1 = (res2, r2)"
      by (cases "ShareResource c rid ?sh r1")
    with g Inr show ?thesis
      by (cases res2)
         (auto simp: shareWithGroup_def doGetGroups_def doShareResource_def perform_eq Let_def)
  qed
qed

section \<open>The updates, step by step\<close>

text \<open>After the decoding and the re-read of the live object, the update is its decision.\<close>

lemma FolderResource_Update_read:
  assumes "\<not> HasError (Diagnostics resp0 @ pd @ sd)"
    and "GetFolder c (ValueString (FM_ID state)) (remote w) = (Inr cur, r1)"
  shows "FolderResource_Update c (pd, plan) (sd, state) resp0 w =
           (case (if FolderResource_needsRecreation plan state cur then
                    FolderResource_Update_recreate c plan state (Append sd (Append pd resp0))
                      \<lparr>remote = r1, calls = calls w @ [GetFolderCall (ValueString (FM_ID state))]\<rparr>
                  else Inr (state, \<lparr>remote = r1,
                                    calls = calls w @ [GetFolderCall (ValueString (FM_ID state))]\<rparr>)) of
              Inl ret \<Rightarrow> ret
            | Inr (st, w5) \<Rightarrow>
                (Set_State (st\<lparr>FM_Name := FM_Name plan, FM_FolderParent := FM_FolderParent plan\<rparr>)
                   (Append sd (Append pd resp0)), w5))"
  using assms
  by (simp add: FolderResource_Update_def Let_def Append_def HasError_append doGetFolder_def perform_eq
        split: sum.split prod.split)

lemma PasswordResource_Update_read:
  assumes "\<not> HasError (Diagnostics resp0 @ pd @ sd)"
    and "GetResource c (ValueString (PM_ID state)) (remote w) = (Inr cur, r1)"
  shows "PasswordResource_Update c (pd, plan) (sd, state) resp0 w =
           (case (if PasswordResource_needsRecreation plan state cur then
                    PasswordResource_Update_recreate c plan state (Append sd (Append pd resp0))
                      \<lparr>remote = r1, calls = calls w @ [GetResourceCall (ValueString (PM_ID state))]\<rparr>
                  else Inr (state, \<lparr>remote = r1,
                                    calls = calls w @ [GetResourceCall (ValueString (PM_ID state))]\<rparr>)) of
              Inl ret \<Rightarrow> ret
            | Inr (st, w6) \<Rightarrow>
                (Set_State (st\<lparr>PM_Name := PM_Name plan, PM_Description := PM_Description plan,
                               PM_Username := PM_Username plan, PM_URI := PM_URI plan,
                               PM_Password := PM_Password plan,
                               PM_FolderParent := PM_FolderParent plan,
                               PM_ShareGroup := PM_ShareGroup plan\<rparr>)
                   (Append sd (Append pd resp0)), w6))"
  using assms
  by (simp add: PasswordResource_Update_def Let_def Append_def HasError_append doGetResource_def
        perform_eq split: sum.split prod.split)

text \<open>After a delete that succeeded, the recreation is the resolution and the create.\<close>

lemma FolderResource_Update_recreate_deleted:
  assumes "DeleteFolder c (ValueString (FM_ID state)) (remote w1) = (None, r2)"
  shows "FolderResource_Update_recreate c plan state resp w1 =
           (case resolveFolder_Update c (FM_FolderParent plan) resp
                   \<lparr>remote = r2, calls = calls w1 @ [DeleteFolderCall (ValueString (FM_ID state))]\<rparr> of
              Inl ret \<Rightarrow> Inl ret
            | Inr (parentFolderID, w3) \<Rightarrow>
                (case doCreateFolder c
                        \<lparr>Folder_ID = '''', Folder_Name = ValueString (FM_Name plan),
                         Folder_FolderParentID = parentFolderID, Folder_Personal = False\<rparr> w3 of
                   (Inl e, w4) \<Rightarrow> Inl (AddError ''Cannot recreate folder'' e resp, w4)
                 | (Inr createdFolder, w4) \<Rightarrow>
                     Inr (state\<lparr>FM_ID := StringValue (Folder_ID createdFolder),
                                FM_Personal := BoolValue (Folder_Personal createdFolder)\<rparr>, w4)))"
  using assms
  by (simp add: FolderResource_Update_recreate_def doDeleteFolder_def perform_eq Let_def
        split: sum.split prod.split)

lemma PasswordResource_Update_recreate_deleted:
  assumes "DeleteResource c (ValueString (PM_ID state)) (remote w1) = (None, r2)"
  shows "PasswordResource_Update_recreate c plan state resp w1 =
           (case resolveFolder_Update c (PM_FolderParent plan) resp
                   \<lparr>remote = r2, calls = calls w1 @ [DeleteResourceCall (ValueString (PM_ID state))]\<rparr> of
              Inl ret \<Rightarrow> Inl ret
            | Inr (folderID, w3) \<Rightarrow>
                (case doCreateResource c folderID (ValueString (PM_Name plan))
                        (ValueString (PM_Username plan)) (ValueString (PM_URI plan))
                        (ValueString (PM_Password plan)) (ValueString (PM_Description plan)) w3 of
                   (Inl e, w4) \<Rightarrow> Inl (AddError ''Cannot recreate resource'' e resp, w4)
                 | (Inr resourceID, w4) \<Rightarrow>
                     (case shareWithGroup c plan resourceID resp w4 of
                        Inl ret \<Rightarrow> Inl ret
                      | Inr w5 \<Rightarrow> Inr (state\<lparr>PM_ID := StringValue resourceID\<rparr>, w5))))"
  using assms
  by (simp add: PasswordResource_Update_recreate_def doDeleteResource_def perform_eq)

lemma resolveFolder_Update_listed:
  assumes "GetFolders c (remote w) = (Inr fs, r')"
  shows "resolveFolder_Update c (StringValue n) resp w =
           Inr (folderIDByName n fs, \<lparr>remote = r', calls = calls w @ [GetFoldersCall]\<rparr>)"
  using assms by (simp add: resolveFolder_Update_def doGetFolders_def perform_eq)

lemma Append_Append:
  "Append sd (Append pd resp0) = \<lparr>Diagnostics = Diagnostics resp0 @ pd @ sd, State = State resp0\<rparr>"
  by (simp add: Append_def)

lemma AddError_Append:
  "AddError s d (Append sd (Append pd resp0)) =
     \<lparr>Diagnostics = Diagnostics resp0 @ pd @ sd @ [ErrorDiag s d], State = State resp0\<rparr>"
  by (simp add: AddError_def Append_def)

lemma Set_State_Append:
  "Set_State m (Append sd (Append pd resp0)) =
     \<lparr>Diagnostics = Diagnostics resp0 @ pd @ sd, State = Some m\<rparr>"
  by (simp add: Set_State_def Append_def)

section \<open>The creates, step by step\<close>

lemma AddError_Append1:
  "AddError s d (Append pd resp0) =
     \<lparr>Diagnostics = Diagnostics resp0 @ pd @ [ErrorDiag s d], State = State resp0\<rparr>"
  by (simp add: AddError_def Append_def)

lemma Set_State_Append1:
  "Set_State m (Append pd resp0) = \<lparr>Diagnostics = Diagnostics resp0 @ pd, State = Some m\<rparr>"
  by (simp add: Set_State_def Append_def)

lemma resolveFolder_Create_listed:
  assumes "GetFolders c (remote w) = (Inr fs, r')"
  shows "resolveFolder_Create c what (StringValue n) resp w =
           (if folderIDByName n fs = '''' then
              Inl (AddError ''Validation Error'' (what @ quoted n @ '' not found'') resp,
                   \<lparr>remote = r', calls = calls w @ [GetFoldersCall]\<rparr>)
            else Inr (folderIDByName n fs, \<lparr>remote = r', calls = calls w @ [GetFoldersCall]\<rparr>))"
  using assms by (simp add: resolveFolder_Create_def doGetFolders_def perform_eq Let_def)

text \<open>After the decoding and the validation, the create is the resolution and the remote create.\<close>

lemma FolderResource_Create_valid:
  assumes "\<not> HasError (Diagnostics resp0 @ pd)"
    and "ValueString (FM_Name plan) \<noteq> ''''"
  shows "FolderResource_Create c (pd, plan) resp0 w =
           (case resolveFolder_Create c ''Parent folder '' (FM_FolderParent plan) (Append pd resp0) w of
              Inl ret \<Rightarrow> ret
            | Inr (parentFolderID, w1) \<Rightarrow>
                (case doCreateFolder c
                        \<lparr>Folder_ID = '''', Folder_Name = ValueString (FM_Name plan),
                         Folder_FolderParentID = parentFolderID, Folder_Personal = False\<rparr> w1 of
                   (Inl e, w2) \<Rightarrow>
                     (AddError ''Error creating folder''
                        (''Could not create folder, unexpected error: '' @ e) (Append pd resp0), w2)
                 | (Inr createdFolder, w2) \<Rightarrow>
                     (Set_State (plan\<lparr>FM_ID := StringValue (Folder_ID createdFolder),
                                      FM_Personal := BoolValue (Folder_Personal createdFolder)\<rparr>)
                        (Append pd resp0), w2)))"
  using assms
  by (simp add: FolderResource_Create_def Let_def Append_def HasError_append
        split: sum.split prod.split)

lemma PasswordResource_Create_valid:
  assumes "\<not> HasError (Diagnostics resp0 @ pd)"
    and "ValueString (PM_Name plan) \<noteq> ''''" and "ValueString (PM_Username plan) \<noteq> ''''"
    and "ValueString (PM_URI plan) \<noteq> ''''" and "ValueString (PM_Password plan) \<noteq> ''''"
    and "MatchString_http (ValueString (PM_URI plan))"
  shows "PasswordResource_Create c (pd, plan) resp0 w =
           (case resolveFolder_Create c ''Folder '' (PM_FolderParent plan) (Append pd resp0) w of
              Inl ret \<Rightarrow> ret
            | Inr (folderID, w1) \<Rightarrow>
                (case doCreateResource c folderID (ValueString (PM_Name plan))
                        (ValueString (PM_Username plan)) (ValueString (PM_URI plan))
                        (ValueString (PM_Password plan)) (ValueString (PM_Description plan)) w1 of
                   (Inl e, w2) \<Rightarrow> (AddError ''Cannot create resource'' e (Append pd resp0), w2)
                 | (Inr resourceID, w2) \<Rightarrow>
                     (case shareWithGroup c plan resourceID (Append pd resp0) w2 of
                        Inl ret \<Rightarrow> ret
                      | Inr w3 \<Rightarrow>
                          (Set_State (plan\<lparr>PM_ID := StringValue resourceID\<rparr>)
                             (Append pd resp0), w3))))"
  using assms
  by (simp add: PasswordResource_Create_def Let_def Append_def HasError_append
        split: sum.split prod.split)

section \<open>Update of a secret entry with a difference\<close>

text \<open>The calls of a block that returns early, and of the share step in either case.\<close>

lemma resolveFolder_Update_fails_trace:
  assumes "resolveFolder_Update c fp resp w = Inl ret"
  shows "calls (snd ret) = calls w @ [GetFoldersCall]"
proof -
  obtain res r' where g: "GetFolders c (remote w) = (res, r')"
    by (cases "GetFolders c (remote w)")
  with assms show ?thesis
    by (cases res)
       (auto simp: resolveFolder_Update_def doGetFolders_def perform_eq split: if_splits)
qed

lemma shareWithGroup_fails_trace:
  assumes "shareWithGroup c plan rid resp w = Inl ret"
  shows "\<exists>ys. calls (snd ret) = calls w @ ys
           \<and> set ys \<subseteq> insert GetGroupsCall (range (ShareResourceCall rid))"
proof -
  obtain res r1 where g: "GetGroups c (remote w) = (res, r1)"
    by (cases "GetGroups c (remote w)")
  show ?thesis
  proof (cases res)
    case (Inl e)
    with assms g have "calls (snd ret) = calls w @ [GetGroupsCall]"
      by (auto simp: shareWithGroup_def doGetGroups_def perform_eq split: if_splits)
    then show ?thesis by simp
  next
    case (Inr gs)
    let ?sh = "[\<lparr>Share_Type = 7, Share_ARO = ''Group'',
                 Share_AROID = groupIDByName (ValueString (PM_ShareGroup plan)) gs\<rparr>]"
    obtain res2 r2 where s: "ShareResource c rid ?sh r1 = (res2, r2)"
      by (cases "ShareResource c rid ?sh r1")
    with assms g Inr
    have "calls (snd ret) = calls w @ [GetGroupsCall, ShareResourceCall rid ?sh]"
      by (cases res2)
         (auto simp: shareWithGroup_def doGetGroups_def doShareResource_def perform_eq Let_def
            split: if_splits)
    then show ?thesis by simp
  qed
qed

text \<open>
  The calls of the recreation branch once the delete succeeded and the parent folder is
  resolved: the create, then the calls of the share step, whatever the create and the share
  step return.
\<close>

lemma PasswordResource_Update_recreate_create_follows:
  assumes del: "DeleteResource c (ValueString (PM_ID state)) (remote w1) = (None, r2)"
    and folder: "resolveFolder_Update c (PM_FolderParent plan) resp
                   \<lparr>remote = r2,
                     calls = calls w1 @ [DeleteResourceCall (ValueString (PM_ID state))]\<rparr>
                 = Inr (fid, w3)"
  shows "\<exists>ys. calls (case PasswordResource_Update_recreate c plan state resp w1 of
                        Inl ret \<Rightarrow> snd ret | Inr sw \<Rightarrow> snd sw)
               = calls w3
                 @ CreateResourceCall fid (ValueString (PM_Name plan))
                     (ValueString (PM_Username plan)) (ValueString (PM_URI plan))
                     (ValueString (PM_Password plan)) (ValueString (PM_Description plan)) # ys
             \<and> set ys \<subseteq> insert GetGroupsCall (range (\<lambda>p. ShareResourceCall (fst p) (snd p)))"
proof -
  let ?create = "CreateResourceCall fid (ValueString (PM_Name plan))
                   (ValueString (PM_Username plan)) (ValueString (PM_URI plan))
                   (ValueString (PM_Password plan)) (ValueString (PM_Description plan))"
  note deleted = PasswordResource_Update_recreate_deleted [OF del, of plan resp]
  obtain cres r4 where create:
    "CreateResource c fid (ValueString (PM_Name plan)) (ValueString (PM_Username plan))
       (ValueString (PM_URI plan)) (ValueString (PM_Password plan))
       (ValueString (PM_Description plan)) (remote w3) = (cres, r4)"
    by (cases "CreateResource c fid (ValueString (PM_Name plan))
       (ValueString (PM_Username plan)) (ValueString (PM_URI plan))
       (ValueString (PM_Password plan)) (ValueString (PM_Description plan)) (remote w3)")
  let ?w4 = "\<lparr>remote = r4, calls = calls w3 @ [?create]\<rparr>"
  have sub: "insert GetGroupsCall (range (ShareResourceCall rid))
               \<subseteq> insert GetGroupsCall (range (\<lambda>p. ShareResourceCall (fst p) (snd p)))" for rid
  proof
    fix x assume "x \<in> insert GetGroupsCall (range (ShareResourceCall rid))"
    then consider "x = GetGroupsCall" | sh where "x = ShareResourceCall rid sh"
      by auto
    then show "x \<in> insert GetGroupsCall (range (\<lambda>p. ShareResourceCall (fst p) (snd p)))"
    proof cases
      case 1
      then show ?thesis by simp
    next
      case 2
      then have "x = (\<lambda>p. ShareResourceCall (fst p) (snd p)) (rid, sh)" by simp
      then show ?thesis by blast
    qed
  qed
  show ?thesis
  proof (cases cres)
    case (Inl e)
    with folder create have "calls (case PasswordResource_Update_recreate c plan state resp w1 of
                        Inl ret \<Rightarrow> snd ret | Inr sw \<Rightarrow> snd sw) = calls w3 @ ?create # []"
      by (simp add: deleted doCreateResource_def perform_eq)
    then show ?thesis by simp
  next
    case created: (Inr rid)
    show ?thesis
    proof (cases "shareWithGroup c plan rid resp ?w4")
      case (Inl ret)
      from shareWithGroup_fails_trace [OF Inl] obtain ys
        where ys: "calls (snd ret) = calls ?w4 @ ys"
          "set ys \<subseteq> insert GetGroupsCall (range (ShareResourceCall rid))"
        by blast
      from folder create created Inl ys(1)
      have "calls (case PasswordResource_Update_recreate c plan state resp w1 of
                        Inl ret \<Rightarrow> snd ret | Inr sw \<Rightarrow> snd sw) = calls w3 @ ?create # ys"
        by (simp add: deleted doCreateResource_def perform_eq)
      with ys(2) sub [of rid] show ?thesis by blast
    next
      case shared: (Inr w5)
      from shareWithGroup_calls [OF shared] obtain ys
        where ys: "calls w5 = calls ?w4 @ ys"
          "set ys \<subseteq> insert GetGroupsCall (range (ShareResourceCall rid))"
        by blast
      from folder create created shared ys(1)
      have "calls (case PasswordResource_Update_recreate c plan state resp w1 of
                        Inl ret \<Rightarrow> snd ret | Inr sw \<Rightarrow> snd sw) = calls w3 @ ?create # ys"
        by (simp add: deleted doCreateResource_def perform_eq)
      with ys(2) sub [of rid] show ?thesis by blast
    qed
  qed
qed

text \<open>
  The calls of the recreation branch in every outcome: the delete of the old id first, then
  only listings of the folders, creates with the planned values, listings of the groups
  and shares.
\<close>

lemma PasswordResource_Update_recreate_trace:
  "\<exists>rest. calls (case PasswordResource_Update_recreate c plan state resp w1 of
                    Inl ret \<Rightarrow> snd ret | Inr sw \<Rightarrow> snd sw)
           = calls w1 @ DeleteResourceCall (ValueString (PM_ID state)) # rest
         \<and> set rest \<subseteq> {GetFoldersCall, GetGroupsCall}
              \<union> range (\<lambda>fid. CreateResourceCall fid (ValueString (PM_Name plan))
                         (ValueString (PM_Username plan)) (ValueString (PM_URI plan))
                         (ValueString (PM_Password plan)) (ValueString (PM_Description plan)))
              \<union> range (\<lambda>p. ShareResourceCall (fst p) (snd p))"
proof -
  let ?del = "DeleteResourceCall (ValueString (PM_ID state))"
  let ?B = "{GetFoldersCall, GetGroupsCall}
              \<union> range (\<lambda>fid. CreateResourceCall fid (ValueString (PM_Name plan))
                         (ValueString (PM_Username plan)) (ValueString (PM_URI plan))
                         (ValueString (PM_Password plan)) (ValueString (PM_Description plan)))
              \<union> range (\<lambda>p. ShareResourceCall (fst p) (snd p))"
  let ?out = "calls (case PasswordResource_Update_recreate c plan state resp w1 of
                       Inl ret \<Rightarrow> snd ret | Inr sw \<Rightarrow> snd sw)"
  obtain dres r2 where del: "DeleteResource c (ValueString (PM_ID state)) (remote w1) = (dres, r2)"
    by (cases "DeleteResource c (ValueString (PM_ID state)) (remote w1)")
  let ?w2 = "\<lparr>remote = r2, calls = calls w1 @ [?del]\<rparr>"
  show ?thesis
  proof (cases dres)
    case (Some e)
    with del have "?out = calls w1 @ ?del # []"
      by (simp add: PasswordResource_Update_recreate_def doDeleteResource_def perform_eq)
    then show ?thesis by simp
  next
    case None
    note del' = del [unfolded None]
    note deleted = PasswordResource_Update_recreate_deleted [OF del', of plan resp]
    show ?thesis
    proof (cases "resolveFolder_Update c (PM_FolderParent plan) resp ?w2")
      case (Inl ret)
      from resolveFolder_Update_fails_trace [OF Inl] Inl
      have "?out = calls w1 @ ?del # [GetFoldersCall]"
        by (simp add: deleted)
      then show ?thesis by simp
    next
      case (Inr p)
      obtain fid w3 where p: "p = (fid, w3)" by (cases p)
      note folder = Inr [unfolded p]
      from resolveFolder_Update_calls [OF folder]
      have w3: "calls w3 = calls w1 @ ?del
                  # (if \<not> IsNull (PM_FolderParent plan) \<and> \<not> IsUnknown (PM_FolderParent plan)
                     then [GetFoldersCall] else [])"
        by simp
      let ?xs = "if \<not> IsNull (PM_FolderParent plan) \<and> \<not> IsUnknown (PM_FolderParent plan)
                 then [GetFoldersCall] else []"
      let ?create = "CreateResourceCall fid (ValueString (PM_Name plan))
                       (ValueString (PM_Username plan)) (ValueString (PM_URI plan))
                       (ValueString (PM_Password plan)) (ValueString (PM_Description plan))"
      from PasswordResource_Update_recreate_create_follows [OF del' folder] obtain ys
        where ys: "?out = calls w3 @ ?create # ys"
          "set ys \<subseteq> insert GetGroupsCall (range (\<lambda>p. ShareResourceCall (fst p) (snd p)))"
        by blast
      have out: "?out = calls w1 @ ?del # (?xs @ ?create # ys)"
        using ys(1) w3 by simp
      have "set ?xs \<subseteq> ?B" by auto
      moreover have "?create \<in> ?B" by blast
      moreover have "set ys \<subseteq> ?B" using ys(2) by blast
      ultimately have "set (?xs @ ?create # ys) \<subseteq> ?B" by simp
      with out show ?thesis by blast
    qed
  qed
qed

text \<open>With the re-read successful and a difference, the calls of the update are the re-read
  and the calls of the recreation branch.\<close>

lemma PasswordResource_Update_snd:
  assumes ok: "\<not> HasError (Diagnostics resp0 @ pd @ sd)"
    and get: "GetResource c (ValueString (PM_ID state)) (remote w) = (Inr cur, r1)"
    and needs: "PasswordResource_needsRecreation plan state cur"
  shows "snd (PasswordResource_Update c (pd, plan) (sd, state) resp0 w) =
           (case PasswordResource_Update_recreate c plan state (Append sd (Append pd resp0))
                   \<lparr>remote = r1, calls = calls w @ [GetResourceCall (ValueString (PM_ID state))]\<rparr> of
              Inl ret \<Rightarrow> snd ret | Inr sw \<Rightarrow> snd sw)"
  using needs
  by (auto simp: PasswordResource_Update_read [OF ok get] split: sum.splits prod.splits)

lemma PasswordResource_Update_trace:
  assumes ok: "\<not> HasError (Diagnostics resp0 @ pd @ sd)"
    and get: "GetResource c (ValueString (PM_ID state)) (remote w) = (Inr cur, r1)"
    and needs: "PasswordResource_needsRecreation plan state cur"
  shows "\<exists>rest. calls (snd (PasswordResource_Update c (pd, plan) (sd, state) resp0 w))
           = calls w @ [GetResourceCall (ValueString (PM_ID state)),
                        DeleteResourceCall (ValueString (PM_ID state))] @ rest
         \<and> set rest \<subseteq> {GetFoldersCall, GetGroupsCall}
              \<union> range (\<lambda>fid. CreateResourceCall fid (ValueString (PM_Name plan))
                         (ValueString (PM_Username plan)) (ValueString (PM_URI plan))
                         (ValueString (PM_Password plan)) (ValueString (PM_Description plan)))
              \<union> range (\<lambda>p. ShareResourceCall (fst p) (snd p))"
proof -
  let ?w1 = "\<lparr>remote = r1, calls = calls w @ [GetResourceCall (ValueString (PM_ID state))]\<rparr>"
  from PasswordResource_Update_recreate_trace [of c plan state "Append sd (Append pd resp0)" ?w1]
  show ?thesis
    unfolding PasswordResource_Update_snd [OF ok get needs] by simp
qed

lemma PasswordResource_Update_create_follows:
  assumes ok: "\<not> HasError (Diagnostics resp0 @ pd @ sd)"
    and get: "GetResource c (ValueString (PM_ID state)) (remote w) = (Inr cur, r1)"
    and needs: "PasswordResource_needsRecreation plan state cur"
    and del: "DeleteResource c (ValueString (PM_ID state)) r1 = (None, r2)"
    and folder: "resolveFolder_Update c (PM_FolderParent plan) (Append sd (Append pd resp0))
                   \<lparr>remote = r2, calls = calls w @ [GetResourceCall (ValueString (PM_ID state)),
                                                    DeleteResourceCall (ValueString (PM_ID state))]\<rparr>
                 = Inr (fid, w3)"
  shows "\<exists>ys. calls (snd (PasswordResource_Update c (pd, plan) (sd, state) resp0 w))
           = calls w @ [GetResourceCall (ValueString (PM_ID state)),
                        DeleteResourceCall (ValueString (PM_ID state))]
               @ (if \<not> IsNull (PM_FolderParent plan) \<and> \<not> IsUnknown (PM_FolderParent plan)
                  then [GetFoldersCall] else [])
               @ CreateResourceCall fid (ValueString (PM_Name plan))
                   (ValueString (PM_Username plan)) (ValueString (PM_URI plan))
                   (ValueString (PM_Password plan)) (ValueString (PM_Description plan)) # ys
         \<and> set ys \<subseteq> insert GetGroupsCall (range (\<lambda>p. ShareResourceCall (fst p) (snd p)))"
proof -
  let ?w1 = "\<lparr>remote = r1, calls = calls w @ [GetResourceCall (ValueString (PM_ID state))]\<rparr>"
  have del': "DeleteResource c (ValueString (PM_ID state)) (remote ?w1) = (None, r2)"
    using del by simp
  have folder': "resolveFolder_Update c (PM_FolderParent plan) (Append sd (Append pd resp0))
                   \<lparr>remote = r2,
                     calls = calls ?w1 @ [DeleteResourceCall (ValueString (PM_ID state))]\<rparr>
                 = Inr (fid, w3)"
    using folder by simp
  from resolveFolder_Update_calls [OF folder]
  have w3: "calls w3 = calls w @ [GetResourceCall (ValueString (PM_ID state)),
                                  DeleteResourceCall (ValueString (PM_ID state))]
              @ (if \<not> IsNull (PM_FolderParent plan) \<and> \<not> IsUnknown (PM_FolderParent plan)
                 then [GetFoldersCall] else [])"
    by simp
  from PasswordResource_Update_recreate_create_follows [OF del' folder']
  show ?thesis
    unfolding PasswordResource_Update_snd [OF ok get needs] w3 by simp
qed

lemma PasswordResource_Update_recreated:
  assumes ok: "\<not> HasError (Diagnostics resp0 @ pd @ sd)"
    and get: "GetResource c (ValueString (PM_ID state)) (remote w) = (Inr cur, r1)"
    and needs: "PasswordResource_needsRecreation plan state cur"
    and del: "DeleteResource c (ValueString (PM_ID state)) r1 = (None, r2)"
    and folder: "resolveFolder_Update c (PM_FolderParent plan) (Append sd (Append pd resp0))
                   \<lparr>remote = r2, calls = calls w @ [GetResourceCall (ValueString (PM_ID state)),
                                                    DeleteResourceCall (ValueString (PM_ID state))]\<rparr>
                 = Inr (fid, w3)"
    and create: "CreateResource c fid (ValueString (PM_Name plan)) (ValueString (PM_Username plan))
                   (ValueString (PM_URI plan)) (ValueString (PM_Password plan))
                   (ValueString (PM_Description plan)) (remote w3) = (Inr rid, r4)"
    and share: "shareWithGroup c plan rid (Append sd (Append pd resp0))
                  \<lparr>remote = r4,
                    calls = calls w3 @ [CreateResourceCall fid (ValueString (PM_Name plan))
                                         (ValueString (PM_Username plan)) (ValueString (PM_URI plan))
                                         (ValueString (PM_Password plan))
                                         (ValueString (PM_Description plan))]\<rparr>
                = Inr w5"
  shows "PasswordResource_Update c (pd, plan) (sd, state) resp0 w =
           (\<lparr>Diagnostics = Diagnostics resp0 @ pd @ sd,
              State = Some (state\<lparr>PM_ID := StringValue rid, PM_Name := PM_Name plan,
                                  PM_Description := PM_Description plan,
                                  PM_Username := PM_Username plan, PM_URI := PM_URI plan,
                                  PM_Password := PM_Password plan,
                                  PM_FolderParent := PM_FolderParent plan,
                                  PM_ShareGroup := PM_ShareGroup plan\<rparr>)\<rparr>, w5)"
    and "\<exists>xs ys. calls w5 =
           calls w @ [GetResourceCall (ValueString (PM_ID state)),
                      DeleteResourceCall (ValueString (PM_ID state))]
             @ xs
             @ [CreateResourceCall fid (ValueString (PM_Name plan)) (ValueString (PM_Username plan))
                  (ValueString (PM_URI plan)) (ValueString (PM_Password plan))
                  (ValueString (PM_Description plan))]
             @ ys
           \<and> set xs \<subseteq> {GetFoldersCall}
           \<and> set ys \<subseteq> insert GetGroupsCall (range (ShareResourceCall rid))"
proof -
  have del': "DeleteResource c (ValueString (PM_ID state))
                (remote \<lparr>remote = r1, calls = calls w @ [GetResourceCall (ValueString (PM_ID state))]\<rparr>)
              = (None, r2)"
    using del by simp
  show "PasswordResource_Update c (pd, plan) (sd, state) resp0 w =
           (\<lparr>Diagnostics = Diagnostics resp0 @ pd @ sd,
              State = Some (state\<lparr>PM_ID := StringValue rid, PM_Name := PM_Name plan,
                                  PM_Description := PM_Description plan,
                                  PM_Username := PM_Username plan, PM_URI := PM_URI plan,
                                  PM_Password := PM_Password plan,
                                  PM_FolderParent := PM_FolderParent plan,
                                  PM_ShareGroup := PM_ShareGroup plan\<rparr>)\<rparr>, w5)"
    using needs folder create share
    by (simp add: PasswordResource_Update_read [OF ok get]
          PasswordResource_Update_recreate_deleted [OF del'] doCreateResource_def perform_eq
          Set_State_Append)
  from resolveFolder_Update_calls [OF folder]
  have w3: "calls w3 = calls w @ [GetResourceCall (ValueString (PM_ID state)),
                                  DeleteResourceCall (ValueString (PM_ID state))]
              @ (if \<not> IsNull (PM_FolderParent plan) \<and> \<not> IsUnknown (PM_FolderParent plan)
                 then [GetFoldersCall] else [])"
    by simp
  from shareWithGroup_calls [OF share] obtain ys
    where ys: "calls w5 = calls w3 @ [CreateResourceCall fid (ValueString (PM_Name plan))
                 (ValueString (PM_Username plan)) (ValueString (PM_URI plan))
                 (ValueString (PM_Password plan)) (ValueString (PM_Description plan))] @ ys"
      and sub: "set ys \<subseteq> insert GetGroupsCall (range (ShareResourceCall rid))"
    by auto
  let ?xs = "if \<not> IsNull (PM_FolderParent plan) \<and> \<not> IsUnknown (PM_FolderParent plan)
             then [GetFoldersCall] else []"
  have "calls w5 =
           calls w @ [GetResourceCall (ValueString (PM_ID state)),
                      DeleteResourceCall (ValueString (PM_ID state))]
             @ ?xs
             @ [CreateResourceCall fid (ValueString (PM_Name plan)) (ValueString (PM_Username plan))
                  (ValueString (PM_URI plan)) (ValueString (PM_Password plan))
                  (ValueString (PM_Description plan))]
             @ ys"
    using w3 ys by simp
  moreover have "set ?xs \<subseteq> {GetFoldersCall}" by auto
  ultimately show "\<exists>xs ys. calls w5 =
           calls w @ [GetResourceCall (ValueString (PM_ID state)),
                      DeleteResourceCall (ValueString (PM_ID state))]
             @ xs
             @ [CreateResourceCall fid (ValueString (PM_Name plan)) (ValueString (PM_Username plan))
                  (ValueString (PM_URI plan)) (ValueString (PM_Password plan))
                  (ValueString (PM_Description plan))]
             @ ys
           \<and> set xs \<subseteq> {GetFoldersCall}
           \<and> set ys \<subseteq> insert GetGroupsCall (range (ShareResourceCall rid))"
    using sub by blast
qed

text \<open>
  C1, as the code has it. In an update of a secret entry whose re-read of the live object
  succeeds and in which a compared field differs (the planned name, description, username
  or uri from the live object, the planned password or parent-folder name from the recorded
  state, all compared as strings):
  \<^item> in every outcome the call after the re-read is the delete of the old id, and the calls
    after it are only listings of the folders, creates with the planned values, listings of
    the groups and shares: no call patches a field;
  \<^item> if the delete succeeds and the parent folder is resolved (the listing of the folders,
    made when a parent folder is specified, succeeds), the create with the resolved folder
    id follows the delete, with at most the listing of the folders between them and only
    calls of the share step after it, whatever the create and the share step return;
  \<^item> if moreover the create returns the id \<open>rid\<close> and the share step succeeds, the state is
    set with the id \<open>rid\<close> and the planned values, and the calls after the create are at
    most the listing of the groups and the share of \<open>rid\<close>.
\<close>

theorem C1_secret_update_recreates:
  assumes ok: "\<not> HasError (Diagnostics resp0 @ pd @ sd)"
    and get: "GetResource c (ValueString (PM_ID state)) (remote w) = (Inr cur, r1)"
    and needs: "PasswordResource_needsRecreation plan state cur"
  shows "(\<exists>rest. calls (snd (PasswordResource_Update c (pd, plan) (sd, state) resp0 w))
            = calls w @ [GetResourceCall (ValueString (PM_ID state)),
                         DeleteResourceCall (ValueString (PM_ID state))] @ rest
          \<and> set rest \<subseteq> {GetFoldersCall, GetGroupsCall}
               \<union> range (\<lambda>fid. CreateResourceCall fid (ValueString (PM_Name plan))
                          (ValueString (PM_Username plan)) (ValueString (PM_URI plan))
                          (ValueString (PM_Password plan)) (ValueString (PM_Description plan)))
               \<union> range (\<lambda>p. ShareResourceCall (fst p) (snd p)))
         \<and> (DeleteResource c (ValueString (PM_ID state)) r1 = (None, r2)
            \<and> resolveFolder_Update c (PM_FolderParent plan) (Append sd (Append pd resp0))
                 \<lparr>remote = r2, calls = calls w @ [GetResourceCall (ValueString (PM_ID state)),
                                                  DeleteResourceCall (ValueString (PM_ID state))]\<rparr>
                = Inr (fid, w3)
          \<longrightarrow> (\<exists>ys. calls (snd (PasswordResource_Update c (pd, plan) (sd, state) resp0 w))
                  = calls w @ [GetResourceCall (ValueString (PM_ID state)),
                               DeleteResourceCall (ValueString (PM_ID state))]
                      @ (if \<not> IsNull (PM_FolderParent plan) \<and> \<not> IsUnknown (PM_FolderParent plan)
                         then [GetFoldersCall] else [])
                      @ CreateResourceCall fid (ValueString (PM_Name plan))
                          (ValueString (PM_Username plan)) (ValueString (PM_URI plan))
                          (ValueString (PM_Password plan)) (ValueString (PM_Description plan)) # ys
                \<and> set ys \<subseteq> insert GetGroupsCall (range (\<lambda>p. ShareResourceCall (fst p) (snd p)))))
         \<and> (DeleteResource c (ValueString (PM_ID state)) r1 = (None, r2)
            \<and> resolveFolder_Update c (PM_FolderParent plan) (Append sd (Append pd resp0))
                 \<lparr>remote = r2, calls = calls w @ [GetResourceCall (ValueString (PM_ID state)),
                                                  DeleteResourceCall (ValueString (PM_ID state))]\<rparr>
                = Inr (fid, w3)
            \<and> CreateResource c fid (ValueString (PM_Name plan)) (ValueString (PM_Username plan))
                 (ValueString (PM_URI plan)) (ValueString (PM_Password plan))
                 (ValueString (PM_Description plan)) (remote w3) = (Inr rid, r4)
            \<and> shareWithGroup c plan rid (Append sd (Append pd resp0))
                 \<lparr>remote = r4,
                   calls = calls w3 @ [CreateResourceCall fid (ValueString (PM_Name plan))
                                        (ValueString (PM_Username plan)) (ValueString (PM_URI plan))
                                        (ValueString (PM_Password plan))
                                        (ValueString (PM_Description plan))]\<rparr>
                = Inr w5
          \<longrightarrow> PasswordResource_Update c (pd, plan) (sd, state) resp0 w =
                (\<lparr>Diagnostics = Diagnostics resp0 @ pd @ sd,
                   State = Some (state\<lparr>PM_ID := StringValue rid, PM_Name := PM_Name plan,
                                       PM_Description := PM_Description plan,
                                       PM_Username := PM_Username plan, PM_URI := PM_URI plan,
                                       PM_Password := PM_Password plan,
                                       PM_FolderParent := PM_FolderParent plan,
                                       PM_ShareGroup := PM_ShareGroup plan\<rparr>)\<rparr>, w5)
              \<and> (\<exists>xs ys. calls w5 =
                    calls w @ [GetResourceCall (ValueString (PM_ID state)),
                               DeleteResourceCall (ValueString (PM_ID state))]
                      @ xs
                      @ [CreateResourceCall fid (ValueString (PM_Name plan))
                           (ValueString (PM_Username plan)) (ValueString (PM_URI plan))
                           (ValueString (PM_Password plan)) (ValueString (PM_Description plan))]
                      @ ys
                    \<and> set xs \<subseteq> {GetFoldersCall}
                    \<and> set ys \<subseteq> insert GetGroupsCall (range (ShareResourceCall rid))))"
proof (intro conjI impI)
  show "\<exists>rest. calls (snd (PasswordResource_Update c (pd, plan) (sd, state) resp0 w))
            = calls w @ [GetResourceCall (ValueString (PM_ID state)),
                         DeleteResourceCall (ValueString (PM_ID state))] @ rest
          \<and> set rest \<subseteq> {GetFoldersCall, GetGroupsCall}
               \<union> range (\<lambda>fid. CreateResourceCall fid (ValueString (PM_Name plan))
                          (ValueString (PM_Username plan)) (ValueString (PM_URI plan))
                          (ValueString (PM_Password plan)) (ValueString (PM_Description plan)))
               \<union> range (\<lambda>p. ShareResourceCall (fst p) (snd p))"
    by (rule PasswordResource_Update_trace [OF ok get needs])
next
  assume "DeleteResource c (ValueString (PM_ID state)) r1 = (None, r2)
            \<and> resolveFolder_Update c (PM_FolderParent plan) (Append sd (Append pd resp0))
                 \<lparr>remote = r2, calls = calls w @ [GetResourceCall (ValueString (PM_ID state)),
                                                  DeleteResourceCall (ValueString (PM_ID state))]\<rparr>
                = Inr (fid, w3)"
  then show "\<exists>ys. calls (snd (PasswordResource_Update c (pd, plan) (sd, state) resp0 w))
                  = calls w @ [GetResourceCall (ValueString (PM_ID state)),
                               DeleteResourceCall (ValueString (PM_ID state))]
                      @ (if \<not> IsNull (PM_FolderParent plan) \<and> \<not> IsUnknown (PM_FolderParent plan)
                         then [GetFoldersCall] else [])
                      @ CreateResourceCall fid (ValueString (PM_Name plan))
                          (ValueString (PM_Username plan)) (ValueString (PM_URI plan))
                          (ValueString (PM_Password plan)) (ValueString (PM_Description plan)) # ys
                \<and> set ys \<subseteq> insert GetGroupsCall (range (\<lambda>p. ShareResourceCall (fst p) (snd p)))"
    using PasswordResource_Update_create_follows [OF ok get needs, of r2 fid w3] by blast
next
  assume all: "DeleteResource c (ValueString (PM_ID state)) r1 = (None, r2)
            \<and> resolveFolder_Update c (PM_FolderParent plan) (Append sd (Append pd resp0))
                 \<lparr>remote = r2, calls = calls w @ [GetResourceCall (ValueString (PM_ID state)),
                                                  DeleteResourceCall (ValueString (PM_ID state))]\<rparr>
                = Inr (fid, w3)
            \<and> CreateResource c fid (ValueString (PM_Name plan)) (ValueString (PM_Username plan))
                 (ValueString (PM_URI plan)) (ValueString (PM_Password plan))
                 (ValueString (PM_Description plan)) (remote w3) = (Inr rid, r4)
            \<and> shareWithGroup c plan rid (Append sd (Append pd resp0))
                 \<lparr>remote = r4,
                   calls = calls w3 @ [CreateResourceCall fid (ValueString (PM_Name plan))
                                        (ValueString (PM_Username plan)) (ValueString (PM_URI plan))
                                        (ValueString (PM_Password plan))
                                        (ValueString (PM_Description plan))]\<rparr>
                = Inr w5"
  then show "PasswordResource_Update c (pd, plan) (sd, state) resp0 w =
                (\<lparr>Diagnostics = Diagnostics resp0 @ pd @ sd,
                   State = Some (state\<lparr>PM_ID := StringValue rid, PM_Name := PM_Name plan,
                                       PM_Description := PM_Description plan,
                                       PM_Username := PM_Username plan, PM_URI := PM_URI plan,
                                       PM_Password := PM_Password plan,
                                       PM_FolderParent := PM_FolderParent plan,
                                       PM_ShareGroup := PM_ShareGroup plan\<rparr>)\<rparr>, w5)"
    using PasswordResource_Update_recreated(1) [OF ok get needs, of r2 fid w3 rid r4 w5] by blast
  from all show "\<exists>xs ys. calls w5 =
                    calls w @ [GetResourceCall (ValueString (PM_ID state)),
                               DeleteResourceCall (ValueString (PM_ID state))]
                      @ xs
                      @ [CreateResourceCall fid (ValueString (PM_Name plan))
                           (ValueString (PM_Username plan)) (ValueString (PM_URI plan))
                           (ValueString (PM_Password plan)) (ValueString (PM_Description plan))]
                      @ ys
                    \<and> set xs \<subseteq> {GetFoldersCall}
                    \<and> set ys \<subseteq> insert GetGroupsCall (range (ShareResourceCall rid))"
    using PasswordResource_Update_recreated(2) [OF ok get needs, of r2 fid w3 rid r4 w5] by blast
qed

text \<open>
  The instance: the uri of the secret db changes and the group ops is resolved. The secret is
  deleted, created again in the folder f1 and shared, and the tracked id becomes r2.
\<close>

theorem C1_secret_update_recreates_witness:
  "PasswordResource_Update (fixedClient healthy) ([], dbNewURI) ([], dbState)
      (tracked dbState) start
     = (\<lparr>Diagnostics = [], State = Some (dbNewURI\<lparr>PM_ID := StringValue ''r2''\<rparr>)\<rparr>,
        \<lparr>remote = 6,
          calls = [GetResourceCall ''r1'', DeleteResourceCall ''r1'', GetFoldersCall,
                   CreateResourceCall ''f1'' ''db'' ''admin'' ''https://db2.example.com'' ''x'' '''',
                   GetGroupsCall,
                   ShareResourceCall ''r2''
                     [\<lparr>Share_Type = 7, Share_ARO = ''Group'', Share_AROID = ''g1''\<rparr>]]\<rparr>)"
proof -
  let ?w5 = "\<lparr>remote = 6,
          calls = [GetResourceCall ''r1'', DeleteResourceCall ''r1'', GetFoldersCall,
                   CreateResourceCall ''f1'' ''db'' ''admin'' ''https://db2.example.com'' ''x'' '''',
                   GetGroupsCall,
                   ShareResourceCall ''r2''
                     [\<lparr>Share_Type = 7, Share_ARO = ''Group'', Share_AROID = ''g1''\<rparr>]]\<rparr> :: nat World"
  have ok: "\<not> HasError (Diagnostics (tracked dbState) @ [] @ [])"
    by (simp add: tracked_def)
  have get: "GetResource (fixedClient healthy) (ValueString (PM_ID dbState)) (remote start)
               = (Inr db, 1)"
    by (simp add: fixedClient_def healthy_def start_def)
  have needs: "PasswordResource_needsRecreation dbNewURI dbState db"
    by (simp add: PasswordResource_needsRecreation_def dbNewURI_def dbState_def db_def)
  from C1_secret_update_recreates [OF ok get needs, of 2 "''f1''"
      "\<lparr>remote = 3, calls = [GetResourceCall ''r1'', DeleteResourceCall ''r1'', GetFoldersCall]\<rparr>"
      "''r2''" 4 ?w5]
  show ?thesis
    by (simp add: fixedClient_def healthy_def tracked_def start_def dbNewURI_def dbState_def
          infra_def ops_def resolveFolder_Update_def shareWithGroup_def doGetFolders_def
          doGetGroups_def doShareResource_def perform_def Append_def)
qed

text \<open>
  C1 as the specification words it fails where the share step fails: the uri of the secret db
  differs, the delete of r1 and the create (which returns the new id r2) succeed, the
  listing of the groups fails, and the update returns with the tracked state, and its id
  r1, left as it was.
\<close>

theorem C1_recreated_and_id_not_updated_counterexample:
  "PasswordResource_needsRecreation dbNewURI dbState db
   \<and> CreateResource (fixedClient (healthy\<lparr>onGetGroups := Inl ''boom''\<rparr>)) ''f1'' ''db'' ''admin''
        ''https://db2.example.com'' ''x'' '''' 3 = (Inr ''r2'', 4)
   \<and> PasswordResource_Update (fixedClient (healthy\<lparr>onGetGroups := Inl ''boom''\<rparr>))
        ([], dbNewURI) ([], dbState) (tracked dbState) start
     = (\<lparr>Diagnostics = [ErrorDiag ''Cannot get groups'' ''boom''], State = Some dbState\<rparr>,
        \<lparr>remote = 5,
          calls = [GetResourceCall ''r1'', DeleteResourceCall ''r1'', GetFoldersCall,
                   CreateResourceCall ''f1'' ''db'' ''admin'' ''https://db2.example.com'' ''x'' '''',
                   GetGroupsCall]\<rparr>)
   \<and> PM_ID dbState = StringValue ''r1''"
  by (simp add: PasswordResource_Update_def PasswordResource_Update_recreate_def
        PasswordResource_needsRecreation_def resolveFolder_Update_def shareWithGroup_def
        doGetResource_def doDeleteResource_def doGetFolders_def doCreateResource_def
        doGetGroups_def perform_def Let_def Append_def AddError_def
        fixedClient_def healthy_def tracked_def start_def dbNewURI_def dbState_def db_def
        infra_def)

section \<open>The provider configuration\<close>

text \<open>Each of the two reports adds one attribute error for each condition that holds.\<close>

lemma reportUnknown_eq:
  "reportUnknown config r =
     r\<lparr>ConfigureDiagnostics := ConfigureDiagnostics r
         @ (if IsUnknown (BaseURL config) then
              [AttributeErrorDiag ''base_url'' ''Unknown Passbolt Base URL''
                 (unknownDetail ''base URL'')]
            else [])
         @ (if IsUnknown (PrivateKey config) then
              [AttributeErrorDiag ''private_key'' ''Unknown Passbolt Private Key''
                 (unknownDetail ''private key'')]
            else [])
         @ (if IsUnknown (Passphrase config) then
              [AttributeErrorDiag ''passphrase'' ''Unknown Passbolt Passphrase''
                 (unknownDetail ''passphrase'')]
            else [])\<rparr>"
  by (simp add: reportUnknown_def Let_def AddAttributeError_def)

lemma reportMissing_eq:
  "reportMissing baseURL privateKey passphrase r =
     r\<lparr>ConfigureDiagnostics := ConfigureDiagnostics r
         @ (if baseURL = '''' then
              [AttributeErrorDiag ''base_url'' ''Missing Passbolt Base URL''
                 (missingDetail ''base URL'' ''base_url'' ''PASSBOLT_BASE_URL'')]
            else [])
         @ (if privateKey = '''' then
              [AttributeErrorDiag ''private_key'' ''Missing Passbolt Private Key''
                 (missingDetail ''private key'' ''private_key'' ''PASSBOLT_PRIVATE_KEY'')]
            else [])
         @ (if passphrase = '''' then
              [AttributeErrorDiag ''passphrase'' ''Missing Passbolt Passphrase''
                 (missingDetail ''passphrase'' ''passphrase'' ''PASSBOLT_PASSPHRASE'')]
            else [])\<rparr>"
  by (simp add: reportMissing_def Let_def AddAttributeError_def)

lemma HasError_reportUnknown:
  "HasError (ConfigureDiagnostics (reportUnknown config r)) =
     (HasError (ConfigureDiagnostics r) \<or> IsUnknown (BaseURL config)
      \<or> IsUnknown (PrivateKey config) \<or> IsUnknown (Passphrase config))"
  by (simp add: reportUnknown_eq HasError_append)

lemma HasError_reportMissing:
  "HasError (ConfigureDiagnostics (reportMissing baseURL privateKey passphrase r)) =
     (HasError (ConfigureDiagnostics r) \<or> baseURL = '''' \<or> privateKey = ''''
      \<or> passphrase = '''')"
  by (simp add: reportMissing_eq HasError_append)

lemma reportUnknown_known:
  "\<not> IsUnknown (BaseURL config) \<Longrightarrow> \<not> IsUnknown (PrivateKey config)
     \<Longrightarrow> \<not> IsUnknown (Passphrase config) \<Longrightarrow> reportUnknown config r = r"
  by (simp add: reportUnknown_eq)

text \<open>The three outcomes of the configuration that come before the constructor of the client.\<close>

lemma PassboltProvider_Configure_decoding_failed:
  assumes "HasError (ConfigureDiagnostics resp0 @ cd)"
  shows "PassboltProvider_Configure api Getenv (cd, config) resp0 w =
           (resp0\<lparr>ConfigureDiagnostics := ConfigureDiagnostics resp0 @ cd\<rparr>, w)"
  using assms by (simp add: PassboltProvider_Configure_def Let_def)

lemma PassboltProvider_Configure_unknown:
  assumes "\<not> HasError (ConfigureDiagnostics resp0 @ cd)"
    and "IsUnknown (BaseURL config) \<or> IsUnknown (PrivateKey config) \<or> IsUnknown (Passphrase config)"
  shows "PassboltProvider_Configure api Getenv (cd, config) resp0 w =
           (reportUnknown config (resp0\<lparr>ConfigureDiagnostics := ConfigureDiagnostics resp0 @ cd\<rparr>), w)"
  using assms
  by (simp add: PassboltProvider_Configure_def Let_def HasError_reportUnknown)

lemma PassboltProvider_Configure_missing:
  assumes "\<not> HasError (ConfigureDiagnostics resp0 @ cd)"
    and "\<not> IsUnknown (BaseURL config)" "\<not> IsUnknown (PrivateKey config)"
      "\<not> IsUnknown (Passphrase config)"
    and "baseURL = (if \<not> IsNull (BaseURL config) then ValueString (BaseURL config)
                    else Getenv ''PASSBOLT_BASE_URL'')"
    and "privateKey = (if \<not> IsNull (PrivateKey config) then ValueString (PrivateKey config)
                       else Getenv ''PASSBOLT_PRIVATE_KEY'')"
    and "passphrase = (if \<not> IsNull (Passphrase config) then ValueString (Passphrase config)
                       else Getenv ''PASSBOLT_PASSPHRASE'')"
    and "baseURL = '''' \<or> privateKey = '''' \<or> passphrase = ''''"
  shows "PassboltProvider_Configure api Getenv (cd, config) resp0 w =
           (reportMissing baseURL privateKey passphrase
              (resp0\<lparr>ConfigureDiagnostics := ConfigureDiagnostics resp0 @ cd\<rparr>), w)"
proof -
  let ?r1 = "resp0\<lparr>ConfigureDiagnostics := ConfigureDiagnostics resp0 @ cd\<rparr>"
  have r1: "\<not> HasError (ConfigureDiagnostics ?r1)"
    using assms(1) by simp
  have known: "reportUnknown config ?r1 = ?r1"
    using assms(2-4) by (rule reportUnknown_known)
  have err: "HasError (ConfigureDiagnostics (reportMissing baseURL privateKey passphrase ?r1))"
    using assms(8) by (simp only: HasError_reportMissing) blast
  show ?thesis
    unfolding PassboltProvider_Configure_def Let_def fst_conv snd_conv known
      assms(5) [symmetric] assms(6) [symmetric] assms(7) [symmetric]
    using r1 err by (simp only: if_True if_False)
qed

text \<open>
  C3. Let \<open>baseURL\<close>, \<open>privateKey\<close> and \<open>passphrase\<close> be the three values after the
  environment fallback (the value of the configuration when it is not null, the variable of
  the environment otherwise). If one of them is the empty string, the configuration returns
  with an error in its diagnostics, in the world it started in (neither the constructor of
  the client nor the login is called) and with no client handed over. When the fallback is
  reached (the decoding gave no error and no value is unknown), the diagnostics added are
  exactly one \<^verbatim>\<open>Missing ...\<close> error for each empty value, attributed to the path of its
  attribute.
\<close>

theorem C3_missing_configuration_fails_before_any_call:
  assumes b: "baseURL = (if \<not> IsNull (BaseURL config) then ValueString (BaseURL config)
                         else Getenv ''PASSBOLT_BASE_URL'')"
    and k: "privateKey = (if \<not> IsNull (PrivateKey config) then ValueString (PrivateKey config)
                          else Getenv ''PASSBOLT_PRIVATE_KEY'')"
    and p: "passphrase = (if \<not> IsNull (Passphrase config) then ValueString (Passphrase config)
                          else Getenv ''PASSBOLT_PASSPHRASE'')"
    and empty: "baseURL = '''' \<or> privateKey = '''' \<or> passphrase = ''''"
  shows "snd (PassboltProvider_Configure api Getenv (cd, config) resp0 w) = w
         \<and> HasError (ConfigureDiagnostics (fst (PassboltProvider_Configure api Getenv (cd, config) resp0 w)))
         \<and> DataSourceData (fst (PassboltProvider_Configure api Getenv (cd, config) resp0 w))
             = DataSourceData resp0
         \<and> ResourceData (fst (PassboltProvider_Configure api Getenv (cd, config) resp0 w))
             = ResourceData resp0
         \<and> (\<not> HasError (ConfigureDiagnostics resp0 @ cd)
              \<and> \<not> IsUnknown (BaseURL config) \<and> \<not> IsUnknown (PrivateKey config)
              \<and> \<not> IsUnknown (Passphrase config)
            \<longrightarrow> ConfigureDiagnostics (fst (PassboltProvider_Configure api Getenv (cd, config) resp0 w))
                 = ConfigureDiagnostics resp0 @ cd
                   @ (if baseURL = '''' then
                        [AttributeErrorDiag ''base_url'' ''Missing Passbolt Base URL''
                           (missingDetail ''base URL'' ''base_url'' ''PASSBOLT_BASE_URL'')]
                      else [])
                   @ (if privateKey = '''' then
                        [AttributeErrorDiag ''private_key'' ''Missing Passbolt Private Key''
                           (missingDetail ''private key'' ''private_key'' ''PASSBOLT_PRIVATE_KEY'')]
                      else [])
                   @ (if passphrase = '''' then
                        [AttributeErrorDiag ''passphrase'' ''Missing Passbolt Passphrase''
                           (missingDetail ''passphrase'' ''passphrase'' ''PASSBOLT_PASSPHRASE'')]
                      else []))"
proof (cases "HasError (ConfigureDiagnostics resp0 @ cd)")
  case True
  then show ?thesis
    by (simp add: PassboltProvider_Configure_decoding_failed [OF True])
next
  case False
  let ?r1 = "resp0\<lparr>ConfigureDiagnostics := ConfigureDiagnostics resp0 @ cd\<rparr>"
  show ?thesis
  proof (cases "IsUnknown (BaseURL config) \<or> IsUnknown (PrivateKey config)
                \<or> IsUnknown (Passphrase config)")
    case True
    have res: "PassboltProvider_Configure api Getenv (cd, config) resp0 w
                 = (reportUnknown config ?r1, w)"
      by (rule PassboltProvider_Configure_unknown [OF False True])
    have err: "HasError (ConfigureDiagnostics (reportUnknown config ?r1))"
      using True by (simp only: HasError_reportUnknown) blast
    have data: "DataSourceData (reportUnknown config ?r1) = DataSourceData resp0"
      "ResourceData (reportUnknown config ?r1) = ResourceData resp0"
      by (simp_all add: reportUnknown_eq)
    from True err data show ?thesis
      unfolding res fst_conv snd_conv by blast
  next
    case known: False
    then have kn: "\<not> IsUnknown (BaseURL config)" "\<not> IsUnknown (PrivateKey config)"
      "\<not> IsUnknown (Passphrase config)"
      by blast+
    have res: "PassboltProvider_Configure api Getenv (cd, config) resp0 w
                 = (reportMissing baseURL privateKey passphrase ?r1, w)"
      by (rule PassboltProvider_Configure_missing [OF False kn b k p empty])
    have err: "HasError (ConfigureDiagnostics (reportMissing baseURL privateKey passphrase ?r1))"
      using empty by (simp only: HasError_reportMissing) blast
    have data: "DataSourceData (reportMissing baseURL privateKey passphrase ?r1) = DataSourceData resp0"
      "ResourceData (reportMissing baseURL privateKey passphrase ?r1) = ResourceData resp0"
      by (simp_all add: reportMissing_eq)
    have diags: "ConfigureDiagnostics (reportMissing baseURL privateKey passphrase ?r1)
                 = ConfigureDiagnostics resp0 @ cd
                   @ (if baseURL = '''' then
                        [AttributeErrorDiag ''base_url'' ''Missing Passbolt Base URL''
                           (missingDetail ''base URL'' ''base_url'' ''PASSBOLT_BASE_URL'')]
                      else [])
                   @ (if privateKey = '''' then
                        [AttributeErrorDiag ''private_key'' ''Missing Passbolt Private Key''
                           (missingDetail ''private key'' ''private_key'' ''PASSBOLT_PRIVATE_KEY'')]
                      else [])
                   @ (if passphrase = '''' then
                        [AttributeErrorDiag ''passphrase'' ''Missing Passbolt Passphrase''
                           (missingDetail ''passphrase'' ''passphrase'' ''PASSBOLT_PASSPHRASE'')]
                      else [])"
      by (simp add: reportMissing_eq)
    from err data diags show ?thesis
      unfolding res fst_conv snd_conv by blast
  qed
qed

text \<open>
  The instance: the base url is configured, the private key comes from the environment and
  the passphrase is null in the configuration and not set in the environment. The one
  diagnostic is attributed to the passphrase and no call is made.
\<close>

theorem C3_missing_configuration_fails_before_any_call_witness:
  "PassboltProvider_Configure (fixedApi (Inr ''client'') None)
      (\<lambda>v. if v = ''PASSBOLT_PRIVATE_KEY'' then ''key'' else '''')
      ([], \<lparr>BaseURL = StringValue ''https://passbolt.example.com'', PrivateKey = StringNull,
             Passphrase = StringNull\<rparr>)
      \<lparr>ConfigureDiagnostics = [], DataSourceData = None, ResourceData = None\<rparr> start
     = (\<lparr>ConfigureDiagnostics =
           [AttributeErrorDiag ''passphrase'' ''Missing Passbolt Passphrase''
              (missingDetail ''passphrase'' ''passphrase'' ''PASSBOLT_PASSPHRASE'')],
         DataSourceData = None, ResourceData = None\<rparr>, start)"
proof -
  let ?env = "\<lambda>v. if v = ''PASSBOLT_PRIVATE_KEY'' then ''key'' else ''''"
  let ?config = "\<lparr>BaseURL = StringValue ''https://passbolt.example.com'',
                   PrivateKey = StringNull, Passphrase = StringNull\<rparr>"
  let ?resp0 = "\<lparr>ConfigureDiagnostics = [], DataSourceData = None,
                  ResourceData = None :: string option\<rparr>"
  let ?res = "PassboltProvider_Configure (fixedApi (Inr ''client'') None) ?env ([], ?config)
                ?resp0 start"
  have b: "''https://passbolt.example.com''
             = (if \<not> IsNull (BaseURL ?config) then ValueString (BaseURL ?config)
                else ?env ''PASSBOLT_BASE_URL'')"
    by simp
  have k: "''key'' = (if \<not> IsNull (PrivateKey ?config) then ValueString (PrivateKey ?config)
                      else ?env ''PASSBOLT_PRIVATE_KEY'')"
    by simp
  have p: "'''' = (if \<not> IsNull (Passphrase ?config) then ValueString (Passphrase ?config)
                   else ?env ''PASSBOLT_PASSPHRASE'')"
    by simp
  have e: "''https://passbolt.example.com'' = '''' \<or> ''key'' = '''' \<or> '''' = ''''"
    by simp
  have "snd ?res = start
        \<and> DataSourceData (fst ?res) = None \<and> ResourceData (fst ?res) = None
        \<and> ConfigureDiagnostics (fst ?res) =
            [AttributeErrorDiag ''passphrase'' ''Missing Passbolt Passphrase''
               (missingDetail ''passphrase'' ''passphrase'' ''PASSBOLT_PASSPHRASE'')]"
    using C3_missing_configuration_fails_before_any_call
      [OF b k p e, of "fixedApi (Inr ''client'') None" "[]" ?resp0 start]
    by simp
  then show ?thesis
    by (cases ?res, cases "fst ?res") simp
qed

section \<open>Create: the parent folder by name\<close>

lemma FolderResource_Create_parent_missing:
  assumes ok: "\<not> HasError (Diagnostics resp0 @ pd)" and name: "ValueString (FM_Name plan) \<noteq> ''''"
    and parent: "FM_FolderParent plan = StringValue n"
    and list: "GetFolders c (remote w) = (Inr fs, r1)"
    and none: "filter (\<lambda>f. Folder_Name f = n) fs = []"
  shows "FolderResource_Create c (pd, plan) resp0 w =
           (\<lparr>Diagnostics = Diagnostics resp0 @ pd
                @ [ErrorDiag ''Validation Error'' (''Parent folder '' @ quoted n @ '' not found'')],
              State = State resp0\<rparr>,
            \<lparr>remote = r1, calls = calls w @ [GetFoldersCall]\<rparr>)"
proof -
  have "folderIDByName n fs = ''''"
    using none by (simp add: folderIDByName_filter)
  then show ?thesis
    using parent
    by (simp add: FolderResource_Create_valid [OF ok name] resolveFolder_Create_listed [OF list]
          AddError_Append1)
qed

lemma FolderResource_Create_parent_found:
  assumes ok: "\<not> HasError (Diagnostics resp0 @ pd)" and name: "ValueString (FM_Name plan) \<noteq> ''''"
    and parent: "FM_FolderParent plan = StringValue n"
    and list: "GetFolders c (remote w) = (Inr fs, r1)"
    and one: "filter (\<lambda>f. Folder_Name f = n) fs = [f]"
    and id: "Folder_ID f \<noteq> ''''"
  shows "calls (snd (FolderResource_Create c (pd, plan) resp0 w)) =
           calls w @ [GetFoldersCall,
                      CreateFolderCall \<lparr>Folder_ID = '''', Folder_Name = ValueString (FM_Name plan),
                                        Folder_FolderParentID = Folder_ID f,
                                        Folder_Personal = False\<rparr>]"
proof -
  have fid: "folderIDByName n fs = Folder_ID f"
    using one by (simp add: folderIDByName_filter)
  obtain res r2 where create:
    "CreateFolder c \<lparr>Folder_ID = '''', Folder_Name = ValueString (FM_Name plan),
                     Folder_FolderParentID = Folder_ID f, Folder_Personal = False\<rparr> r1 = (res, r2)"
    by (cases "CreateFolder c \<lparr>Folder_ID = '''', Folder_Name = ValueString (FM_Name plan),
                     Folder_FolderParentID = Folder_ID f, Folder_Personal = False\<rparr> r1")
  show ?thesis
    using parent fid id create
    by (cases res)
       (simp_all add: FolderResource_Create_valid [OF ok name] resolveFolder_Create_listed [OF list]
          doCreateFolder_def perform_eq)
qed

lemma PasswordResource_Create_parent_missing:
  assumes ok: "\<not> HasError (Diagnostics resp0 @ pd)"
    and valid: "ValueString (PM_Name plan) \<noteq> ''''" "ValueString (PM_Username plan) \<noteq> ''''"
      "ValueString (PM_URI plan) \<noteq> ''''" "ValueString (PM_Password plan) \<noteq> ''''"
      "MatchString_http (ValueString (PM_URI plan))"
    and parent: "PM_FolderParent plan = StringValue n"
    and list: "GetFolders c (remote w) = (Inr fs, r1)"
    and none: "filter (\<lambda>f. Folder_Name f = n) fs = []"
  shows "PasswordResource_Create c (pd, plan) resp0 w =
           (\<lparr>Diagnostics = Diagnostics resp0 @ pd
                @ [ErrorDiag ''Validation Error'' (''Folder '' @ quoted n @ '' not found'')],
              State = State resp0\<rparr>,
            \<lparr>remote = r1, calls = calls w @ [GetFoldersCall]\<rparr>)"
proof -
  have "folderIDByName n fs = ''''"
    using none by (simp add: folderIDByName_filter)
  then show ?thesis
    using parent
    by (simp add: PasswordResource_Create_valid [OF ok valid] resolveFolder_Create_listed [OF list]
          AddError_Append1)
qed

lemma PasswordResource_Create_parent_found:
  assumes ok: "\<not> HasError (Diagnostics resp0 @ pd)"
    and valid: "ValueString (PM_Name plan) \<noteq> ''''" "ValueString (PM_Username plan) \<noteq> ''''"
      "ValueString (PM_URI plan) \<noteq> ''''" "ValueString (PM_Password plan) \<noteq> ''''"
      "MatchString_http (ValueString (PM_URI plan))"
    and parent: "PM_FolderParent plan = StringValue n"
    and list: "GetFolders c (remote w) = (Inr fs, r1)"
    and one: "filter (\<lambda>f. Folder_Name f = n) fs = [f]"
    and id: "Folder_ID f \<noteq> ''''"
  shows "\<exists>rest. calls (snd (PasswordResource_Create c (pd, plan) resp0 w)) =
           calls w @ [GetFoldersCall,
                      CreateResourceCall (Folder_ID f) (ValueString (PM_Name plan))
                        (ValueString (PM_Username plan)) (ValueString (PM_URI plan))
                        (ValueString (PM_Password plan)) (ValueString (PM_Description plan))]
             @ rest"
proof -
  let ?create = "CreateResourceCall (Folder_ID f) (ValueString (PM_Name plan))
                   (ValueString (PM_Username plan)) (ValueString (PM_URI plan))
                   (ValueString (PM_Password plan)) (ValueString (PM_Description plan))"
  have fid: "folderIDByName n fs = Folder_ID f"
    using one by (simp add: folderIDByName_filter)
  obtain res r2 where create:
    "CreateResource c (Folder_ID f) (ValueString (PM_Name plan)) (ValueString (PM_Username plan))
       (ValueString (PM_URI plan)) (ValueString (PM_Password plan))
       (ValueString (PM_Description plan)) r1 = (res, r2)"
    by (cases "CreateResource c (Folder_ID f) (ValueString (PM_Name plan))
       (ValueString (PM_Username plan)) (ValueString (PM_URI plan)) (ValueString (PM_Password plan))
       (ValueString (PM_Description plan)) r1")
  let ?w2 = "\<lparr>remote = r2, calls = calls w @ [GetFoldersCall, ?create]\<rparr>"
  have step: "PasswordResource_Create c (pd, plan) resp0 w =
                (case res of
                   Inl e \<Rightarrow> (AddError ''Cannot create resource'' e (Append pd resp0), ?w2)
                 | Inr resourceID \<Rightarrow>
                     (case shareWithGroup c plan resourceID (Append pd resp0) ?w2 of
                        Inl ret \<Rightarrow> ret
                      | Inr w3 \<Rightarrow>
                          (Set_State (plan\<lparr>PM_ID := StringValue resourceID\<rparr>)
                             (Append pd resp0), w3)))"
    using parent fid id create
    by (cases res)
       (simp_all add: PasswordResource_Create_valid [OF ok valid]
          resolveFolder_Create_listed [OF list] doCreateResource_def perform_eq)
  show ?thesis
  proof (cases res)
    case (Inl e)
    with step show ?thesis by simp
  next
    case (Inr rid)
    show ?thesis
    proof (cases "shareWithGroup c plan rid (Append pd resp0) ?w2")
      case (Inl ret)
      have "\<exists>ys. calls (snd ret) = calls ?w2 @ ys"
        using Inl shareWithGroup_fails_calls by blast
      with step Inr Inl show ?thesis by auto
    next
      case (Inr w3)
      from shareWithGroup_calls [OF Inr] obtain ys where "calls w3 = calls ?w2 @ ys"
        by blast
      with step \<open>res = Inr rid\<close> Inr show ?thesis by simp
    qed
  qed
qed

text \<open>
  C4. A create, of a folder or of a secret entry, that passed the decoding and the
  validation, with the parent-folder name \<open>n\<close> specified and the folders listed. If no folder
  of the listing has the name \<open>n\<close>, the create returns with the one diagnostic
  \<^verbatim>\<open>Validation Error\<close>, \<^verbatim>\<open>... 'n' not found\<close> added, the listing is its only call (no
  remote create) and the state of the response is untouched. If exactly one folder \<open>f\<close> has
  the name, the scan resolves the id of \<open>f\<close>, and, that id not being the empty string, the
  next call is the remote create with the id of \<open>f\<close> as parent-folder id. In every listing
  the scan compares the names for equality and returns the id of the first folder with the
  name.
\<close>

theorem C4_create_resolves_parent_folder:
  "folderIDByName n fs =
     (case filter (\<lambda>f. Folder_Name f = n) fs of [] \<Rightarrow> '''' | first # rest \<Rightarrow> Folder_ID first)
   \<and> (\<not> HasError (Diagnostics respF @ pdF) \<and> ValueString (FM_Name planF) \<noteq> ''''
      \<and> FM_FolderParent planF = StringValue n
      \<and> GetFolders c (remote w) = (Inr fs, r1)
    \<longrightarrow> (filter (\<lambda>f. Folder_Name f = n) fs = []
          \<longrightarrow> FolderResource_Create c (pdF, planF) respF w =
                (\<lparr>Diagnostics = Diagnostics respF @ pdF
                     @ [ErrorDiag ''Validation Error''
                          (''Parent folder '' @ quoted n @ '' not found'')],
                   State = State respF\<rparr>,
                 \<lparr>remote = r1, calls = calls w @ [GetFoldersCall]\<rparr>))
        \<and> (filter (\<lambda>f. Folder_Name f = n) fs = [f]
          \<longrightarrow> folderIDByName n fs = Folder_ID f
              \<and> (Folder_ID f \<noteq> ''''
                 \<longrightarrow> calls (snd (FolderResource_Create c (pdF, planF) respF w)) =
                       calls w @ [GetFoldersCall,
                                  CreateFolderCall
                                    \<lparr>Folder_ID = '''', Folder_Name = ValueString (FM_Name planF),
                                     Folder_FolderParentID = Folder_ID f,
                                     Folder_Personal = False\<rparr>])))
   \<and> (\<not> HasError (Diagnostics respS @ pdS)
      \<and> ValueString (PM_Name planS) \<noteq> '''' \<and> ValueString (PM_Username planS) \<noteq> ''''
      \<and> ValueString (PM_URI planS) \<noteq> '''' \<and> ValueString (PM_Password planS) \<noteq> ''''
      \<and> MatchString_http (ValueString (PM_URI planS))
      \<and> PM_FolderParent planS = StringValue n
      \<and> GetFolders c (remote w) = (Inr fs, r1)
    \<longrightarrow> (filter (\<lambda>f. Folder_Name f = n) fs = []
          \<longrightarrow> PasswordResource_Create c (pdS, planS) respS w =
                (\<lparr>Diagnostics = Diagnostics respS @ pdS
                     @ [ErrorDiag ''Validation Error'' (''Folder '' @ quoted n @ '' not found'')],
                   State = State respS\<rparr>,
                 \<lparr>remote = r1, calls = calls w @ [GetFoldersCall]\<rparr>))
        \<and> (filter (\<lambda>f. Folder_Name f = n) fs = [f]
          \<longrightarrow> folderIDByName n fs = Folder_ID f
              \<and> (Folder_ID f \<noteq> ''''
                 \<longrightarrow> (\<exists>rest. calls (snd (PasswordResource_Create c (pdS, planS) respS w)) =
                       calls w @ [GetFoldersCall,
                                  CreateResourceCall (Folder_ID f) (ValueString (PM_Name planS))
                                    (ValueString (PM_Username planS)) (ValueString (PM_URI planS))
                                    (ValueString (PM_Password planS))
                                    (ValueString (PM_Description planS))]
                         @ rest))))"
proof -
  have scan: "filter (\<lambda>f. Folder_Name f = n) fs = [f] \<Longrightarrow> folderIDByName n fs = Folder_ID f"
    by (simp add: folderIDByName_filter)
  show ?thesis
    using scan folderIDByName_filter [of n fs]
      FolderResource_Create_parent_missing [of respF pdF planF n c w fs r1]
      FolderResource_Create_parent_found [of respF pdF planF n c w fs r1 f]
      PasswordResource_Create_parent_missing [of respS pdS planS n c w fs r1]
      PasswordResource_Create_parent_found [of respS pdS planS n c w fs r1 f]
    by blast
qed

text \<open>
  The instance: on the server with the one folder Infra, the folder Sub and the secret db
  are created under Nowhere, which fails after the listing, and under Infra, whose id f1 is
  passed to the remote create.
\<close>

theorem C4_create_resolves_parent_folder_witness:
  "FolderResource_Create (fixedClient healthy) ([], newFolder (StringValue ''Nowhere''))
      untracked start
     = (\<lparr>Diagnostics = [ErrorDiag ''Validation Error''
                           (''Parent folder '' @ quoted ''Nowhere'' @ '' not found'')],
         State = None\<rparr>,
        \<lparr>remote = 1, calls = [GetFoldersCall]\<rparr>)
   \<and> calls (snd (FolderResource_Create (fixedClient healthy)
                   ([], newFolder (StringValue ''Infra'')) untracked start))
     = [GetFoldersCall,
        CreateFolderCall \<lparr>Folder_ID = '''', Folder_Name = ''Sub'', Folder_FolderParentID = ''f1'',
                          Folder_Personal = False\<rparr>]
   \<and> PasswordResource_Create (fixedClient healthy)
      ([], newSecret (StringValue ''Nowhere'') StringNull) untracked start
     = (\<lparr>Diagnostics = [ErrorDiag ''Validation Error''
                           (''Folder '' @ quoted ''Nowhere'' @ '' not found'')],
         State = None\<rparr>,
        \<lparr>remote = 1, calls = [GetFoldersCall]\<rparr>)
   \<and> (\<exists>rest. calls (snd (PasswordResource_Create (fixedClient healthy)
                   ([], newSecret (StringValue ''Infra'') StringNull) untracked start))
     = [GetFoldersCall,
        CreateResourceCall ''f1'' ''db'' ''admin'' ''https://db.example.com'' ''x'' ''''] @ rest)"
  using C4_create_resolves_parent_folder
    [where c = "fixedClient healthy" and w = start and n = "''Nowhere''" and fs = "[infra]"
       and ?r1.0 = 1 and f = infra
       and respF = untracked and pdF = "[]" and planF = "newFolder (StringValue ''Nowhere'')"
       and respS = untracked and pdS = "[]"
       and planS = "newSecret (StringValue ''Nowhere'') StringNull"]
    C4_create_resolves_parent_folder
    [where c = "fixedClient healthy" and w = start and n = "''Infra''" and fs = "[infra]"
       and ?r1.0 = 1 and f = infra
       and respF = untracked and pdF = "[]" and planF = "newFolder (StringValue ''Infra'')"
       and respS = untracked and pdS = "[]"
       and planS = "newSecret (StringValue ''Infra'') StringNull"]
  by (simp add: fixedClient_def healthy_def untracked_def start_def newFolder_def newSecret_def
        dbState_def infra_def MatchString_http_def)

section \<open>Create: the share group by name\<close>

text \<open>
  C5. A create of a secret entry that passed the decoding and the validation, resolved its
  parent folder and created the entry remotely with the id \<open>rid\<close>, with the share-group
  name \<open>g\<close> specified: if the listing of the groups succeeds and no group has the name
  \<open>g\<close>, the create makes no call after the listing (no share), adds no diagnostic, and sets
  the state to the plan with the id \<open>rid\<close>. On the same create, a parent-folder name that
  no folder of the listing has ends it with an error diagnostic before the remote create.
\<close>

theorem C5_unresolved_share_group_is_skipped:
  assumes ok: "\<not> HasError (Diagnostics resp0 @ pd)"
    and valid: "ValueString (PM_Name plan) \<noteq> ''''" "ValueString (PM_Username plan) \<noteq> ''''"
      "ValueString (PM_URI plan) \<noteq> ''''" "ValueString (PM_Password plan) \<noteq> ''''"
      "MatchString_http (ValueString (PM_URI plan))"
    and folder: "resolveFolder_Create c ''Folder '' (PM_FolderParent plan) (Append pd resp0) w
                 = Inr (fid, w1)"
    and create: "CreateResource c fid (ValueString (PM_Name plan)) (ValueString (PM_Username plan))
                   (ValueString (PM_URI plan)) (ValueString (PM_Password plan))
                   (ValueString (PM_Description plan)) (remote w1) = (Inr rid, r2)"
    and grp: "PM_ShareGroup plan = StringValue g"
    and list: "GetGroups c r2 = (Inr gs, r3)"
    and none: "filter (\<lambda>x. Group_Name x = g) gs = []"
  shows "PasswordResource_Create c (pd, plan) resp0 w =
           (\<lparr>Diagnostics = Diagnostics resp0 @ pd,
              State = Some (plan\<lparr>PM_ID := StringValue rid\<rparr>)\<rparr>,
            \<lparr>remote = r3,
              calls = calls w1
                @ [CreateResourceCall fid (ValueString (PM_Name plan))
                     (ValueString (PM_Username plan)) (ValueString (PM_URI plan))
                     (ValueString (PM_Password plan)) (ValueString (PM_Description plan)),
                   GetGroupsCall]\<rparr>)
         \<and> calls w1 = calls w @ (if \<not> IsNull (PM_FolderParent plan)
                                     \<and> \<not> IsUnknown (PM_FolderParent plan)
                                  then [GetFoldersCall] else [])
         \<and> (\<forall>n fs r. PM_FolderParent plan = StringValue n \<longrightarrow> GetFolders c (remote w) = (Inr fs, r)
               \<longrightarrow> filter (\<lambda>f. Folder_Name f = n) fs \<noteq> [])"
proof -
  have gid: "groupIDByName g gs = ''''"
    using none by (simp add: groupIDByName_filter)
  have result: "PasswordResource_Create c (pd, plan) resp0 w =
           (\<lparr>Diagnostics = Diagnostics resp0 @ pd,
              State = Some (plan\<lparr>PM_ID := StringValue rid\<rparr>)\<rparr>,
            \<lparr>remote = r3,
              calls = calls w1
                @ [CreateResourceCall fid (ValueString (PM_Name plan))
                     (ValueString (PM_Username plan)) (ValueString (PM_URI plan))
                     (ValueString (PM_Password plan)) (ValueString (PM_Description plan)),
                   GetGroupsCall]\<rparr>)"
    using folder create grp list gid
    by (simp add: PasswordResource_Create_valid [OF ok valid] doCreateResource_def perform_eq
          shareWithGroup_def doGetGroups_def Set_State_Append1)
  have missing: "filter (\<lambda>f. Folder_Name f = n) fs \<noteq> []"
    if "PM_FolderParent plan = StringValue n" and l: "GetFolders c (remote w) = (Inr fs, r)"
    for n fs r
  proof
    assume "filter (\<lambda>f. Folder_Name f = n) fs = []"
    then have "folderIDByName n fs = ''''"
      by (simp add: folderIDByName_filter)
    with folder that show False
      by (simp add: resolveFolder_Create_listed [OF l])
  qed
  show ?thesis
    using result resolveFolder_Create_calls [OF folder] missing by blast
qed

text \<open>
  The instance: the secret db is created at the root and shared with the group nobody, on
  the server whose only group is ops. The create succeeds with the id r2 and the calls are
  the remote create and the listing of the groups.
\<close>

theorem C5_unresolved_share_group_is_skipped_witness:
  "PasswordResource_Create (fixedClient healthy)
      ([], newSecret StringNull (StringValue ''nobody'')) untracked start
     = (\<lparr>Diagnostics = [],
         State = Some (newSecret StringNull (StringValue ''nobody'')\<lparr>PM_ID := StringValue ''r2''\<rparr>)\<rparr>,
        \<lparr>remote = 2,
          calls = [CreateResourceCall '''' ''db'' ''admin'' ''https://db.example.com'' ''x'' '''',
                   GetGroupsCall]\<rparr>)"
  using C5_unresolved_share_group_is_skipped
    [where c = "fixedClient healthy" and w = start and ?resp0.0 = untracked and pd = "[]"
       and plan = "newSecret StringNull (StringValue ''nobody'')" and fid = "''''" and ?w1.0 = start
       and rid = "''r2''" and ?r2.0 = 1 and g = "''nobody''" and gs = "[ops]" and ?r3.0 = 2]
  by (simp add: fixedClient_def healthy_def untracked_def start_def newSecret_def dbState_def
        ops_def MatchString_http_def resolveFolder_Create_def)

section \<open>Create: the uri\<close>

text \<open>
  C6. A create of a secret entry whose uri does not match \<^verbatim>\<open>^https?://\<close> makes no remote
  call (the world is the one it started in), leaves the state of the response untouched and
  returns with an error; when the decoding of the plan gave no error, the diagnostic added
  is one \<^verbatim>\<open>Validation Error\<close>.
\<close>

theorem C6_uri_is_validated_before_any_call:
  assumes "\<not> MatchString_http (ValueString (PM_URI plan))"
  shows "snd (PasswordResource_Create c (pd, plan) resp0 w) = w
         \<and> State (fst (PasswordResource_Create c (pd, plan) resp0 w)) = State resp0
         \<and> HasError (Diagnostics (fst (PasswordResource_Create c (pd, plan) resp0 w)))
         \<and> (\<not> HasError (Diagnostics resp0 @ pd) \<longrightarrow>
              (\<exists>detail. Diagnostics (fst (PasswordResource_Create c (pd, plan) resp0 w)) =
                 Diagnostics resp0 @ pd @ [ErrorDiag ''Validation Error'' detail]))"
  using assms
  by (simp add: PasswordResource_Create_def Let_def AddError_def Append_def HasError_append)

text \<open>The instance: the uri ftp://db.example.com.\<close>

theorem C6_uri_is_validated_before_any_call_witness:
  "PasswordResource_Create (fixedClient healthy)
      ([], newSecret StringNull StringNull\<lparr>PM_URI := StringValue ''ftp://db.example.com''\<rparr>)
      untracked start
     = (\<lparr>Diagnostics = [ErrorDiag ''Validation Error'' ''URI must be a valid HTTP or HTTPS URL''],
         State = None\<rparr>, start)"
proof -
  let ?plan = "newSecret StringNull StringNull\<lparr>PM_URI := StringValue ''ftp://db.example.com''\<rparr>"
  let ?res = "PasswordResource_Create (fixedClient healthy) ([], ?plan) untracked start"
  have no: "\<not> MatchString_http (ValueString (PM_URI ?plan))"
    by (simp add: MatchString_http_def)
  from C6_uri_is_validated_before_any_call [OF no, of "fixedClient healthy" "[]" untracked start]
  have "snd ?res = start" and "State (fst ?res) = None" and "HasError (Diagnostics (fst ?res))"
    by (simp_all add: untracked_def)
  moreover have "Diagnostics (fst ?res)
                   = [ErrorDiag ''Validation Error'' ''URI must be a valid HTTP or HTTPS URL'']"
    by (simp add: PasswordResource_Create_def Let_def AddError_def Append_def untracked_def
          newSecret_def dbState_def MatchString_http_def)
  ultimately show ?thesis
    by (cases ?res, cases "fst ?res") (simp add: untracked_def)
qed

section \<open>Read\<close>

text \<open>A read whose call fails: the folder read reports every error, the secret read removes
  the state for the errors \<^verbatim>\<open>isResourceNotFoundError\<close> accepts and reports the others.\<close>

lemma FolderResource_Read_fails:
  assumes "\<not> HasError (Diagnostics resp0 @ sd)"
    and "GetFolder c (ValueString (FM_ID state)) (remote w) = (Inl e, r1)"
  shows "FolderResource_Read c (sd, state) resp0 w =
           (\<lparr>Diagnostics = Diagnostics resp0 @ sd
                @ [ErrorDiag ''Error reading folder'' (''Could not read folder, unexpected error: '' @ e)],
              State = State resp0\<rparr>,
            \<lparr>remote = r1, calls = calls w @ [GetFolderCall (ValueString (FM_ID state))]\<rparr>)"
  using assms
  by (simp add: FolderResource_Read_def Let_def HasError_append Append_def AddError_def
        doGetFolder_def perform_eq)

lemma PasswordResource_Read_fails:
  assumes "\<not> HasError (Diagnostics resp0 @ sd)"
    and "GetResource c (ValueString (PM_ID state)) (remote w) = (Inl e, r1)"
  shows "PasswordResource_Read isResourceNotFoundError c (sd, state) resp0 w =
           (if isResourceNotFoundError e then
              \<lparr>Diagnostics = Diagnostics resp0 @ sd, State = None\<rparr>
            else
              \<lparr>Diagnostics = Diagnostics resp0 @ sd
                 @ [ErrorDiag ''Error reading password''
                      (''Could not read password, unexpected error: '' @ e)],
               State = State resp0\<rparr>,
            \<lparr>remote = r1, calls = calls w @ [GetResourceCall (ValueString (PM_ID state))]\<rparr>)"
  using assms
  by (simp add: PasswordResource_Read_def Let_def HasError_append Append_def AddError_def
        RemoveResource_def doGetResource_def perform_eq)

text \<open>
  C7. A read of a secret entry whose response carries the tracked state \<open>state\<close>, as the
  framework prepares it: whatever the remote answers, a state the read leaves in the
  response has the password of \<open>state\<close>.
\<close>

theorem C7_read_keeps_password:
  assumes "State resp0 = Some state"
  shows "\<forall>s'. State (fst (PasswordResource_Read isResourceNotFoundError c (sd, state) resp0 w))
                = Some s' \<longrightarrow> PM_Password s' = PM_Password state"
proof -
  obtain res r1 where get: "GetResource c (ValueString (PM_ID state)) (remote w) = (res, r1)"
    by (cases "GetResource c (ValueString (PM_ID state)) (remote w)")
  show ?thesis
  proof (cases "HasError (Diagnostics resp0 @ sd)")
    case True
    with assms show ?thesis
      by (simp add: PasswordResource_Read_def Let_def Append_def)
  next
    case False
    show ?thesis
    proof (cases res)
      case (Inl e)
      with get assms show ?thesis
        by (simp add: PasswordResource_Read_fails [OF False])
    next
      case (Inr resource)
      let ?w1 = "\<lparr>remote = r1, calls = calls w @ [GetResourceCall (ValueString (PM_ID state))]\<rparr>"
      obtain res2 r2 where list: "GetFolders c (remote ?w1) = (res2, r2)"
        by (cases "GetFolders c (remote ?w1)")
      from False get Inr list show ?thesis
        by (cases res2)
           (auto simp: PasswordResource_Read_def Let_def HasError_append Append_def Set_State_def
              doGetResource_def doGetFolders_def perform_eq split: option.splits)
    qed
  qed
qed

text \<open>
  The instance: the read of the secret db refreshes the description from the server and
  keeps the password x.
\<close>

theorem C7_read_keeps_password_witness:
  "State (fst (PasswordResource_Read (\<lambda>e. e = ''not found'') (fixedClient healthy)
                 ([], dbState) (tracked dbState) start))
     = Some (dbState\<lparr>PM_Description := StringValue ''''\<rparr>)
   \<and> PM_Password (dbState\<lparr>PM_Description := StringValue ''''\<rparr>) = StringValue ''x''"
proof -
  let ?res = "PasswordResource_Read (\<lambda>e. e = ''not found'') (fixedClient healthy)
                ([], dbState) (tracked dbState) start"
  have tr: "State (tracked dbState) = Some dbState"
    by (simp add: tracked_def)
  have st: "State (fst ?res) = Some (dbState\<lparr>PM_Description := StringValue ''''\<rparr>)"
    by (simp add: PasswordResource_Read_def Let_def Append_def Set_State_def doGetResource_def
          doGetFolders_def perform_def fixedClient_def healthy_def tracked_def start_def
          dbState_def db_def infra_def)
  from C7_read_keeps_password [OF tr, of "\<lambda>e. e = ''not found''" "fixedClient healthy" "[]" start]
    st
  have "PM_Password (dbState\<lparr>PM_Description := StringValue ''''\<rparr>) = PM_Password dbState"
    by simp
  with st show ?thesis
    by (simp add: dbState_def)
qed

section \<open>Read of an entity the server no longer has\<close>

text \<open>
  C2. The folder read has no branch for an entity that is not found: on the server that
  answers \<^verbatim>\<open>not found\<close> to the read of the folder f1, it adds the diagnostic
  \<^verbatim>\<open>Error reading folder\<close> and leaves the tracked state in the response. The secret read,
  on the same answer for the secret r1, adds no diagnostic and removes the state.
\<close>

theorem C2_folder_read_reports_not_found:
  "FolderResource_Read (fixedClient (healthy\<lparr>onGetFolder := Inl ''not found''\<rparr>))
      ([], infraState) (tracked infraState) start
     = (\<lparr>Diagnostics = [ErrorDiag ''Error reading folder''
                           ''Could not read folder, unexpected error: not found''],
         State = Some infraState\<rparr>,
        \<lparr>remote = 1, calls = [GetFolderCall ''f1'']\<rparr>)
   \<and> PasswordResource_Read (\<lambda>e. e = ''not found'')
      (fixedClient (healthy\<lparr>onGetResource := Inl ''not found''\<rparr>))
      ([], dbState) (tracked dbState) start
     = (\<lparr>Diagnostics = [], State = None\<rparr>,
        \<lparr>remote = 1, calls = [GetResourceCall ''r1'']\<rparr>)"
  by (simp add: FolderResource_Read_def PasswordResource_Read_def Let_def Append_def AddError_def
        RemoveResource_def doGetFolder_def doGetResource_def perform_def fixedClient_def
        healthy_def tracked_def start_def infraState_def dbState_def)

section \<open>Update without a difference\<close>

lemma FolderResource_Update_unchanged:
  assumes "\<not> HasError (Diagnostics resp0 @ pd @ sd)"
    and "GetFolder c (ValueString (FM_ID state)) (remote w) = (Inr cur, r1)"
    and "\<not> FolderResource_needsRecreation plan state cur"
  shows "FolderResource_Update c (pd, plan) (sd, state) resp0 w =
           (\<lparr>Diagnostics = Diagnostics resp0 @ pd @ sd,
              State = Some (state\<lparr>FM_Name := FM_Name plan,
                                  FM_FolderParent := FM_FolderParent plan\<rparr>)\<rparr>,
            \<lparr>remote = r1, calls = calls w @ [GetFolderCall (ValueString (FM_ID state))]\<rparr>)"
  using assms(3) by (simp add: FolderResource_Update_read [OF assms(1,2)] Set_State_Append)

lemma PasswordResource_Update_unchanged:
  assumes "\<not> HasError (Diagnostics resp0 @ pd @ sd)"
    and "GetResource c (ValueString (PM_ID state)) (remote w) = (Inr cur, r1)"
    and "\<not> PasswordResource_needsRecreation plan state cur"
  shows "PasswordResource_Update c (pd, plan) (sd, state) resp0 w =
           (\<lparr>Diagnostics = Diagnostics resp0 @ pd @ sd,
              State = Some (state\<lparr>PM_Name := PM_Name plan, PM_Description := PM_Description plan,
                                  PM_Username := PM_Username plan, PM_URI := PM_URI plan,
                                  PM_Password := PM_Password plan,
                                  PM_FolderParent := PM_FolderParent plan,
                                  PM_ShareGroup := PM_ShareGroup plan\<rparr>)\<rparr>,
            \<lparr>remote = r1, calls = calls w @ [GetResourceCall (ValueString (PM_ID state))]\<rparr>)"
  using assms(3) by (simp add: PasswordResource_Update_read [OF assms(1,2)] Set_State_Append)

text \<open>
  C8. An update, of a folder or of a secret entry, whose re-read of the live object
  succeeds and in which no compared field differs (\<open>needsRecreation\<close> stays false) makes no
  remote call but the re-read, so no delete and no create, adds no diagnostic, and sets the
  state to the prior state with the planned values of the other fields: the tracked id is
  the one it was.
\<close>

theorem C8_update_without_difference:
  "(\<not> HasError (Diagnostics respF @ pdF @ sdF)
      \<and> GetFolder c (ValueString (FM_ID stateF)) (remote w) = (Inr curF, rF)
      \<and> \<not> FolderResource_needsRecreation planF stateF curF
    \<longrightarrow> FolderResource_Update c (pdF, planF) (sdF, stateF) respF w =
          (\<lparr>Diagnostics = Diagnostics respF @ pdF @ sdF,
             State = Some (stateF\<lparr>FM_Name := FM_Name planF,
                                  FM_FolderParent := FM_FolderParent planF\<rparr>)\<rparr>,
           \<lparr>remote = rF, calls = calls w @ [GetFolderCall (ValueString (FM_ID stateF))]\<rparr>)
        \<and> FM_ID (stateF\<lparr>FM_Name := FM_Name planF, FM_FolderParent := FM_FolderParent planF\<rparr>)
            = FM_ID stateF)
   \<and> (\<not> HasError (Diagnostics respS @ pdS @ sdS)
      \<and> GetResource c (ValueString (PM_ID stateS)) (remote w) = (Inr curS, rS)
      \<and> \<not> PasswordResource_needsRecreation planS stateS curS
    \<longrightarrow> PasswordResource_Update c (pdS, planS) (sdS, stateS) respS w =
          (\<lparr>Diagnostics = Diagnostics respS @ pdS @ sdS,
             State = Some (stateS\<lparr>PM_Name := PM_Name planS, PM_Description := PM_Description planS,
                                  PM_Username := PM_Username planS, PM_URI := PM_URI planS,
                                  PM_Password := PM_Password planS,
                                  PM_FolderParent := PM_FolderParent planS,
                                  PM_ShareGroup := PM_ShareGroup planS\<rparr>)\<rparr>,
           \<lparr>remote = rS, calls = calls w @ [GetResourceCall (ValueString (PM_ID stateS))]\<rparr>)
        \<and> PM_ID (stateS\<lparr>PM_Name := PM_Name planS, PM_Description := PM_Description planS,
                          PM_Username := PM_Username planS, PM_URI := PM_URI planS,
                          PM_Password := PM_Password planS,
                          PM_FolderParent := PM_FolderParent planS,
                          PM_ShareGroup := PM_ShareGroup planS\<rparr>) = PM_ID stateS)"
  using FolderResource_Update_unchanged [of respF pdF sdF c stateF w curF rF planF]
    PasswordResource_Update_unchanged [of respS pdS sdS c stateS w curS rS planS]
  by simp

text \<open>
  The instance: the folder Infra and the secret db, planned as they are on the server. Each
  update makes the one call of the re-read and keeps the id.
\<close>

theorem C8_update_without_difference_witness:
  "FolderResource_Update (fixedClient healthy) ([], infraState) ([], infraState)
      (tracked infraState) start
     = (tracked infraState, \<lparr>remote = 1, calls = [GetFolderCall ''f1'']\<rparr>)
   \<and> PasswordResource_Update (fixedClient healthy) ([], dbState) ([], dbState)
      (tracked dbState) start
     = (tracked dbState, \<lparr>remote = 1, calls = [GetResourceCall ''r1'']\<rparr>)"
  using C8_update_without_difference [of "tracked infraState" "[]" "[]" "fixedClient healthy"
      infraState start infra 1 infraState "tracked dbState" "[]" "[]" dbState db 1 dbState]
  by (simp add: fixedClient_def healthy_def tracked_def start_def infraState_def dbState_def
        infra_def db_def FolderResource_needsRecreation_def PasswordResource_needsRecreation_def)

section \<open>Recreation: the create fails\<close>

lemma FolderResource_Update_create_fails:
  assumes ok: "\<not> HasError (Diagnostics resp0 @ pd @ sd)"
    and get: "GetFolder c (ValueString (FM_ID state)) (remote w) = (Inr cur, r1)"
    and needs: "FolderResource_needsRecreation plan state cur"
    and del: "DeleteFolder c (ValueString (FM_ID state)) r1 = (None, r2)"
    and res: "resolveFolder_Update c (FM_FolderParent plan) (Append sd (Append pd resp0))
                \<lparr>remote = r2, calls = calls w @ [GetFolderCall (ValueString (FM_ID state)),
                                                 DeleteFolderCall (ValueString (FM_ID state))]\<rparr>
              = Inr (fid, w3)"
    and create: "CreateFolder c \<lparr>Folder_ID = '''', Folder_Name = ValueString (FM_Name plan),
                                 Folder_FolderParentID = fid, Folder_Personal = False\<rparr> (remote w3)
                 = (Inl e, r4)"
  shows "FolderResource_Update c (pd, plan) (sd, state) resp0 w =
           (\<lparr>Diagnostics = Diagnostics resp0 @ pd @ sd @ [ErrorDiag ''Cannot recreate folder'' e],
              State = State resp0\<rparr>,
            \<lparr>remote = r4,
              calls = calls w @ [GetFolderCall (ValueString (FM_ID state)),
                                DeleteFolderCall (ValueString (FM_ID state))]
                @ (if \<not> IsNull (FM_FolderParent plan) \<and> \<not> IsUnknown (FM_FolderParent plan)
                   then [GetFoldersCall] else [])
                @ [CreateFolderCall \<lparr>Folder_ID = '''', Folder_Name = ValueString (FM_Name plan),
                                     Folder_FolderParentID = fid, Folder_Personal = False\<rparr>]\<rparr>)"
proof -
  have del': "DeleteFolder c (ValueString (FM_ID state))
                (remote \<lparr>remote = r1, calls = calls w @ [GetFolderCall (ValueString (FM_ID state))]\<rparr>)
              = (None, r2)"
    using del by simp
  have cs: "calls w3 = calls w @ [GetFolderCall (ValueString (FM_ID state)),
                                  DeleteFolderCall (ValueString (FM_ID state))]
              @ (if \<not> IsNull (FM_FolderParent plan) \<and> \<not> IsUnknown (FM_FolderParent plan)
                 then [GetFoldersCall] else [])"
    using resolveFolder_Update_calls [OF res] by simp
  show ?thesis
    using needs res create cs
    by (simp add: FolderResource_Update_read [OF ok get]
          FolderResource_Update_recreate_deleted [OF del'] doCreateFolder_def perform_eq
          AddError_Append)
qed

lemma PasswordResource_Update_create_fails:
  assumes ok: "\<not> HasError (Diagnostics resp0 @ pd @ sd)"
    and get: "GetResource c (ValueString (PM_ID state)) (remote w) = (Inr cur, r1)"
    and needs: "PasswordResource_needsRecreation plan state cur"
    and del: "DeleteResource c (ValueString (PM_ID state)) r1 = (None, r2)"
    and res: "resolveFolder_Update c (PM_FolderParent plan) (Append sd (Append pd resp0))
                \<lparr>remote = r2, calls = calls w @ [GetResourceCall (ValueString (PM_ID state)),
                                                 DeleteResourceCall (ValueString (PM_ID state))]\<rparr>
              = Inr (fid, w3)"
    and create: "CreateResource c fid (ValueString (PM_Name plan)) (ValueString (PM_Username plan))
                   (ValueString (PM_URI plan)) (ValueString (PM_Password plan))
                   (ValueString (PM_Description plan)) (remote w3)
                 = (Inl e, r4)"
  shows "PasswordResource_Update c (pd, plan) (sd, state) resp0 w =
           (\<lparr>Diagnostics = Diagnostics resp0 @ pd @ sd @ [ErrorDiag ''Cannot recreate resource'' e],
              State = State resp0\<rparr>,
            \<lparr>remote = r4,
              calls = calls w @ [GetResourceCall (ValueString (PM_ID state)),
                                DeleteResourceCall (ValueString (PM_ID state))]
                @ (if \<not> IsNull (PM_FolderParent plan) \<and> \<not> IsUnknown (PM_FolderParent plan)
                   then [GetFoldersCall] else [])
                @ [CreateResourceCall fid (ValueString (PM_Name plan))
                     (ValueString (PM_Username plan)) (ValueString (PM_URI plan))
                     (ValueString (PM_Password plan)) (ValueString (PM_Description plan))]\<rparr>)"
proof -
  have del': "DeleteResource c (ValueString (PM_ID state))
                (remote \<lparr>remote = r1, calls = calls w @ [GetResourceCall (ValueString (PM_ID state))]\<rparr>)
              = (None, r2)"
    using del by simp
  have cs: "calls w3 = calls w @ [GetResourceCall (ValueString (PM_ID state)),
                                  DeleteResourceCall (ValueString (PM_ID state))]
              @ (if \<not> IsNull (PM_FolderParent plan) \<and> \<not> IsUnknown (PM_FolderParent plan)
                 then [GetFoldersCall] else [])"
    using resolveFolder_Update_calls [OF res] by simp
  show ?thesis
    using needs res create cs
    by (simp add: PasswordResource_Update_read [OF ok get]
          PasswordResource_Update_recreate_deleted [OF del'] doCreateResource_def perform_eq
          AddError_Append)
qed

text \<open>
  C9. In an update that takes the recreation path (the re-read succeeded and a compared
  field differs), of a folder or of a secret entry, if the delete of the old id succeeds,
  the parent folder is resolved and the create fails with the error \<open>e\<close>, the update
  returns with the one diagnostic \<^verbatim>\<open>Cannot recreate ...\<close> carrying \<open>e\<close> added and the
  state of the response untouched. The calls are the re-read, the delete, the folder
  listing when a parent is specified, and the create, which is the last call: there is no
  second create, and nothing after the failure restores the deleted entity.
\<close>

theorem C9_recreation_create_fails:
  "(\<not> HasError (Diagnostics respF @ pdF @ sdF)
      \<and> GetFolder c (ValueString (FM_ID stateF)) (remote w) = (Inr curF, r1F)
      \<and> FolderResource_needsRecreation planF stateF curF
      \<and> DeleteFolder c (ValueString (FM_ID stateF)) r1F = (None, r2F)
      \<and> resolveFolder_Update c (FM_FolderParent planF) (Append sdF (Append pdF respF))
           \<lparr>remote = r2F, calls = calls w @ [GetFolderCall (ValueString (FM_ID stateF)),
                                             DeleteFolderCall (ValueString (FM_ID stateF))]\<rparr>
          = Inr (fidF, w3F)
      \<and> CreateFolder c \<lparr>Folder_ID = '''', Folder_Name = ValueString (FM_Name planF),
                         Folder_FolderParentID = fidF, Folder_Personal = False\<rparr> (remote w3F)
          = (Inl eF, r4F)
    \<longrightarrow> FolderResource_Update c (pdF, planF) (sdF, stateF) respF w =
          (\<lparr>Diagnostics = Diagnostics respF @ pdF @ sdF @ [ErrorDiag ''Cannot recreate folder'' eF],
             State = State respF\<rparr>,
           \<lparr>remote = r4F,
             calls = calls w @ [GetFolderCall (ValueString (FM_ID stateF)),
                               DeleteFolderCall (ValueString (FM_ID stateF))]
               @ (if \<not> IsNull (FM_FolderParent planF) \<and> \<not> IsUnknown (FM_FolderParent planF)
                  then [GetFoldersCall] else [])
               @ [CreateFolderCall \<lparr>Folder_ID = '''', Folder_Name = ValueString (FM_Name planF),
                                    Folder_FolderParentID = fidF, Folder_Personal = False\<rparr>]\<rparr>))
   \<and> (\<not> HasError (Diagnostics respS @ pdS @ sdS)
      \<and> GetResource c (ValueString (PM_ID stateS)) (remote w) = (Inr curS, r1S)
      \<and> PasswordResource_needsRecreation planS stateS curS
      \<and> DeleteResource c (ValueString (PM_ID stateS)) r1S = (None, r2S)
      \<and> resolveFolder_Update c (PM_FolderParent planS) (Append sdS (Append pdS respS))
           \<lparr>remote = r2S, calls = calls w @ [GetResourceCall (ValueString (PM_ID stateS)),
                                             DeleteResourceCall (ValueString (PM_ID stateS))]\<rparr>
          = Inr (fidS, w3S)
      \<and> CreateResource c fidS (ValueString (PM_Name planS)) (ValueString (PM_Username planS))
           (ValueString (PM_URI planS)) (ValueString (PM_Password planS))
           (ValueString (PM_Description planS)) (remote w3S)
          = (Inl eS, r4S)
    \<longrightarrow> PasswordResource_Update c (pdS, planS) (sdS, stateS) respS w =
          (\<lparr>Diagnostics = Diagnostics respS @ pdS @ sdS @ [ErrorDiag ''Cannot recreate resource'' eS],
             State = State respS\<rparr>,
           \<lparr>remote = r4S,
             calls = calls w @ [GetResourceCall (ValueString (PM_ID stateS)),
                               DeleteResourceCall (ValueString (PM_ID stateS))]
               @ (if \<not> IsNull (PM_FolderParent planS) \<and> \<not> IsUnknown (PM_FolderParent planS)
                  then [GetFoldersCall] else [])
               @ [CreateResourceCall fidS (ValueString (PM_Name planS))
                    (ValueString (PM_Username planS)) (ValueString (PM_URI planS))
                    (ValueString (PM_Password planS)) (ValueString (PM_Description planS))]\<rparr>))"
  using FolderResource_Update_create_fails [of respF pdF sdF c stateF w curF r1F planF r2F fidF w3F eF r4F]
    PasswordResource_Update_create_fails [of respS pdS sdS c stateS w curS r1S planS r2S fidS w3S eS r4S]
  by blast

text \<open>
  The instance: the folder Infra is renamed and the uri of the secret db changes, on a server
  whose creates fail. The tracked states keep the old ids, and the last call is the one
  create.
\<close>

theorem C9_recreation_create_fails_witness:
  "FolderResource_Update
      (fixedClient (healthy\<lparr>onCreateFolder := Inl ''boom'', onCreateResource := Inl ''boom''\<rparr>))
      ([], infraState\<lparr>FM_Name := StringValue ''Infra2''\<rparr>) ([], infraState)
      (tracked infraState) start
     = (\<lparr>Diagnostics = [ErrorDiag ''Cannot recreate folder'' ''boom''], State = Some infraState\<rparr>,
        \<lparr>remote = 3,
          calls = [GetFolderCall ''f1'', DeleteFolderCall ''f1'',
                   CreateFolderCall \<lparr>Folder_ID = '''', Folder_Name = ''Infra2'',
                                     Folder_FolderParentID = '''', Folder_Personal = False\<rparr>]\<rparr>)
   \<and> PasswordResource_Update
      (fixedClient (healthy\<lparr>onCreateFolder := Inl ''boom'', onCreateResource := Inl ''boom''\<rparr>))
      ([], dbState\<lparr>PM_URI := StringValue ''https://db2.example.com''\<rparr>) ([], dbState)
      (tracked dbState) start
     = (\<lparr>Diagnostics = [ErrorDiag ''Cannot recreate resource'' ''boom''], State = Some dbState\<rparr>,
        \<lparr>remote = 4,
          calls = [GetResourceCall ''r1'', DeleteResourceCall ''r1'', GetFoldersCall,
                   CreateResourceCall ''f1'' ''db'' ''admin'' ''https://db2.example.com'' ''x''
                     '''']\<rparr>)"
  using C9_recreation_create_fails
    [where c = "fixedClient (healthy\<lparr>onCreateFolder := Inl ''boom'', onCreateResource := Inl ''boom''\<rparr>)"
       and w = start
       and respF = "tracked infraState" and pdF = "[]" and sdF = "[]" and stateF = infraState
       and planF = "infraState\<lparr>FM_Name := StringValue ''Infra2''\<rparr>"
       and curF = infra and ?r1F.0 = 1 and ?r2F.0 = 2 and fidF = "''''"
       and ?w3F.0 = "\<lparr>remote = 2, calls = [GetFolderCall ''f1'', DeleteFolderCall ''f1'']\<rparr>"
       and eF = "''boom''" and ?r4F.0 = 3
       and respS = "tracked dbState" and pdS = "[]" and sdS = "[]" and stateS = dbState
       and planS = "dbState\<lparr>PM_URI := StringValue ''https://db2.example.com''\<rparr>"
       and curS = db and ?r1S.0 = 1 and ?r2S.0 = 2 and fidS = "''f1''"
       and ?w3S.0 = "\<lparr>remote = 3, calls = [GetResourceCall ''r1'', DeleteResourceCall ''r1'',
                                             GetFoldersCall]\<rparr>"
       and eS = "''boom''" and ?r4S.0 = 4]
  by (simp add: fixedClient_def healthy_def tracked_def start_def infraState_def dbState_def
        infra_def db_def FolderResource_needsRecreation_def PasswordResource_needsRecreation_def
        resolveFolder_Update_def doGetFolders_def perform_def)

section \<open>Recreation: the parent folder is not found\<close>

lemma FolderResource_Update_parent_missing:
  assumes ok: "\<not> HasError (Diagnostics resp0 @ pd @ sd)"
    and get: "GetFolder c (ValueString (FM_ID state)) (remote w) = (Inr cur, r1)"
    and needs: "FolderResource_needsRecreation plan state cur"
    and del: "DeleteFolder c (ValueString (FM_ID state)) r1 = (None, r2)"
    and parent: "FM_FolderParent plan = StringValue n"
    and list: "GetFolders c r2 = (Inr fs, r3)"
    and none: "filter (\<lambda>f. Folder_Name f = n) fs = []"
    and create: "CreateFolder c \<lparr>Folder_ID = '''', Folder_Name = ValueString (FM_Name plan),
                                 Folder_FolderParentID = '''', Folder_Personal = False\<rparr> r3
                 = (res, r4)"
  shows "FolderResource_Update c (pd, plan) (sd, state) resp0 w =
           (case res of
              Inl e \<Rightarrow>
                \<lparr>Diagnostics = Diagnostics resp0 @ pd @ sd @ [ErrorDiag ''Cannot recreate folder'' e],
                 State = State resp0\<rparr>
            | Inr createdFolder \<Rightarrow>
                \<lparr>Diagnostics = Diagnostics resp0 @ pd @ sd,
                 State = Some (state\<lparr>FM_ID := StringValue (Folder_ID createdFolder),
                                     FM_Personal := BoolValue (Folder_Personal createdFolder),
                                     FM_Name := FM_Name plan,
                                     FM_FolderParent := FM_FolderParent plan\<rparr>)\<rparr>,
            \<lparr>remote = r4,
              calls = calls w @ [GetFolderCall (ValueString (FM_ID state)),
                                DeleteFolderCall (ValueString (FM_ID state)), GetFoldersCall,
                                CreateFolderCall
                                  \<lparr>Folder_ID = '''', Folder_Name = ValueString (FM_Name plan),
                                   Folder_FolderParentID = '''', Folder_Personal = False\<rparr>]\<rparr>)"
proof -
  have del': "DeleteFolder c (ValueString (FM_ID state))
                (remote \<lparr>remote = r1, calls = calls w @ [GetFolderCall (ValueString (FM_ID state))]\<rparr>)
              = (None, r2)"
    using del by simp
  have fid: "folderIDByName n fs = ''''"
    using none by (simp add: folderIDByName_filter)
  show ?thesis
    using needs parent list fid create
    by (cases res)
       (simp_all add: FolderResource_Update_read [OF ok get]
          FolderResource_Update_recreate_deleted [OF del'] resolveFolder_Update_listed
          doCreateFolder_def perform_eq AddError_Append Set_State_Append)
qed

lemma PasswordResource_Update_parent_missing:
  assumes ok: "\<not> HasError (Diagnostics resp0 @ pd @ sd)"
    and get: "GetResource c (ValueString (PM_ID state)) (remote w) = (Inr cur, r1)"
    and needs: "PasswordResource_needsRecreation plan state cur"
    and del: "DeleteResource c (ValueString (PM_ID state)) r1 = (None, r2)"
    and parent: "PM_FolderParent plan = StringValue n"
    and list: "GetFolders c r2 = (Inr fs, r3)"
    and none: "filter (\<lambda>f. Folder_Name f = n) fs = []"
    and create: "CreateResource c '''' (ValueString (PM_Name plan)) (ValueString (PM_Username plan))
                   (ValueString (PM_URI plan)) (ValueString (PM_Password plan))
                   (ValueString (PM_Description plan)) r3
                 = (res, r4)"
    and w4: "w4 = \<lparr>remote = r4,
                    calls = calls w @ [GetResourceCall (ValueString (PM_ID state)),
                                      DeleteResourceCall (ValueString (PM_ID state)), GetFoldersCall,
                                      CreateResourceCall '''' (ValueString (PM_Name plan))
                                        (ValueString (PM_Username plan)) (ValueString (PM_URI plan))
                                        (ValueString (PM_Password plan))
                                        (ValueString (PM_Description plan))]\<rparr>"
  shows "PasswordResource_Update c (pd, plan) (sd, state) resp0 w =
           (case res of
              Inl e \<Rightarrow>
                (\<lparr>Diagnostics = Diagnostics resp0 @ pd @ sd @ [ErrorDiag ''Cannot recreate resource'' e],
                  State = State resp0\<rparr>, w4)
            | Inr resourceID \<Rightarrow>
                (case shareWithGroup c plan resourceID (Append sd (Append pd resp0)) w4 of
                   Inl ret \<Rightarrow> ret
                 | Inr w5 \<Rightarrow>
                     (\<lparr>Diagnostics = Diagnostics resp0 @ pd @ sd,
                       State = Some (state\<lparr>PM_ID := StringValue resourceID,
                                           PM_Name := PM_Name plan,
                                           PM_Description := PM_Description plan,
                                           PM_Username := PM_Username plan, PM_URI := PM_URI plan,
                                           PM_Password := PM_Password plan,
                                           PM_FolderParent := PM_FolderParent plan,
                                           PM_ShareGroup := PM_ShareGroup plan\<rparr>)\<rparr>, w5)))"
proof -
  have del': "DeleteResource c (ValueString (PM_ID state))
                (remote \<lparr>remote = r1, calls = calls w @ [GetResourceCall (ValueString (PM_ID state))]\<rparr>)
              = (None, r2)"
    using del by simp
  have fid: "folderIDByName n fs = ''''"
    using none by (simp add: folderIDByName_filter)
  show ?thesis
    using needs parent list fid create w4
    by (cases res)
       (simp_all add: PasswordResource_Update_read [OF ok get]
          PasswordResource_Update_recreate_deleted [OF del'] resolveFolder_Update_listed
          doCreateResource_def perform_eq AddError_Append Set_State_Append split: sum.split)
qed

text \<open>
  C10. In the recreation path of an update, of a folder or of a secret entry, after the
  delete of the old id succeeded: if the planned parent-folder name \<open>n\<close> is the name of no
  folder of the fresh listing, no diagnostic is added for it and the create is called with
  the empty parent-folder id. The update then fails only if that create fails (or, for a
  secret, the share step after it); when they succeed the state is set with the id the
  create returned and without any diagnostic added.
\<close>

theorem C10_recreation_parent_not_found:
  "(\<not> HasError (Diagnostics respF @ pdF @ sdF)
      \<and> GetFolder c (ValueString (FM_ID stateF)) (remote w) = (Inr curF, r1F)
      \<and> FolderResource_needsRecreation planF stateF curF
      \<and> DeleteFolder c (ValueString (FM_ID stateF)) r1F = (None, r2F)
      \<and> FM_FolderParent planF = StringValue nF
      \<and> GetFolders c r2F = (Inr fsF, r3F)
      \<and> filter (\<lambda>f. Folder_Name f = nF) fsF = []
      \<and> CreateFolder c \<lparr>Folder_ID = '''', Folder_Name = ValueString (FM_Name planF),
                         Folder_FolderParentID = '''', Folder_Personal = False\<rparr> r3F
          = (resF, r4F)
    \<longrightarrow> FolderResource_Update c (pdF, planF) (sdF, stateF) respF w =
          (case resF of
             Inl e \<Rightarrow>
               \<lparr>Diagnostics = Diagnostics respF @ pdF @ sdF @ [ErrorDiag ''Cannot recreate folder'' e],
                State = State respF\<rparr>
           | Inr createdFolder \<Rightarrow>
               \<lparr>Diagnostics = Diagnostics respF @ pdF @ sdF,
                State = Some (stateF\<lparr>FM_ID := StringValue (Folder_ID createdFolder),
                                     FM_Personal := BoolValue (Folder_Personal createdFolder),
                                     FM_Name := FM_Name planF,
                                     FM_FolderParent := FM_FolderParent planF\<rparr>)\<rparr>,
           \<lparr>remote = r4F,
             calls = calls w @ [GetFolderCall (ValueString (FM_ID stateF)),
                               DeleteFolderCall (ValueString (FM_ID stateF)), GetFoldersCall,
                               CreateFolderCall
                                 \<lparr>Folder_ID = '''', Folder_Name = ValueString (FM_Name planF),
                                  Folder_FolderParentID = '''', Folder_Personal = False\<rparr>]\<rparr>))
   \<and> (\<not> HasError (Diagnostics respS @ pdS @ sdS)
      \<and> GetResource c (ValueString (PM_ID stateS)) (remote w) = (Inr curS, r1S)
      \<and> PasswordResource_needsRecreation planS stateS curS
      \<and> DeleteResource c (ValueString (PM_ID stateS)) r1S = (None, r2S)
      \<and> PM_FolderParent planS = StringValue nS
      \<and> GetFolders c r2S = (Inr fsS, r3S)
      \<and> filter (\<lambda>f. Folder_Name f = nS) fsS = []
      \<and> CreateResource c '''' (ValueString (PM_Name planS)) (ValueString (PM_Username planS))
           (ValueString (PM_URI planS)) (ValueString (PM_Password planS))
           (ValueString (PM_Description planS)) r3S
          = (resS, r4S)
      \<and> w4S = \<lparr>remote = r4S,
                calls = calls w @ [GetResourceCall (ValueString (PM_ID stateS)),
                                  DeleteResourceCall (ValueString (PM_ID stateS)), GetFoldersCall,
                                  CreateResourceCall '''' (ValueString (PM_Name planS))
                                    (ValueString (PM_Username planS)) (ValueString (PM_URI planS))
                                    (ValueString (PM_Password planS))
                                    (ValueString (PM_Description planS))]\<rparr>
    \<longrightarrow> PasswordResource_Update c (pdS, planS) (sdS, stateS) respS w =
          (case resS of
             Inl e \<Rightarrow>
               (\<lparr>Diagnostics = Diagnostics respS @ pdS @ sdS @ [ErrorDiag ''Cannot recreate resource'' e],
                 State = State respS\<rparr>, w4S)
           | Inr resourceID \<Rightarrow>
               (case shareWithGroup c planS resourceID (Append sdS (Append pdS respS)) w4S of
                  Inl ret \<Rightarrow> ret
                | Inr w5 \<Rightarrow>
                    (\<lparr>Diagnostics = Diagnostics respS @ pdS @ sdS,
                      State = Some (stateS\<lparr>PM_ID := StringValue resourceID,
                                           PM_Name := PM_Name planS,
                                           PM_Description := PM_Description planS,
                                           PM_Username := PM_Username planS, PM_URI := PM_URI planS,
                                           PM_Password := PM_Password planS,
                                           PM_FolderParent := PM_FolderParent planS,
                                           PM_ShareGroup := PM_ShareGroup planS\<rparr>)\<rparr>, w5))))"
  using FolderResource_Update_parent_missing
      [of respF pdF sdF c stateF w curF r1F planF r2F nF fsF r3F resF r4F]
    PasswordResource_Update_parent_missing
      [of respS pdS sdS c stateS w curS r1S planS r2S nS fsS r3S resS r4S w4S]
  by blast

text \<open>
  The instance: the folder Infra and the secret db are moved to the parent Nowhere, a name
  the server has no folder for. Both are created again with the empty parent id and the
  updates succeed with the new ids.
\<close>

theorem C10_recreation_parent_not_found_witness:
  "FolderResource_Update (fixedClient healthy)
      ([], infraState\<lparr>FM_FolderParent := StringValue ''Nowhere''\<rparr>) ([], infraState)
      (tracked infraState) start
     = (\<lparr>Diagnostics = [],
         State = Some (infraState\<lparr>FM_ID := StringValue ''f2'',
                                  FM_FolderParent := StringValue ''Nowhere''\<rparr>)\<rparr>,
        \<lparr>remote = 4,
          calls = [GetFolderCall ''f1'', DeleteFolderCall ''f1'', GetFoldersCall,
                   CreateFolderCall \<lparr>Folder_ID = '''', Folder_Name = ''Infra'',
                                     Folder_FolderParentID = '''', Folder_Personal = False\<rparr>]\<rparr>)
   \<and> PasswordResource_Update (fixedClient healthy)
      ([], dbState\<lparr>PM_FolderParent := StringValue ''Nowhere''\<rparr>) ([], dbState)
      (tracked dbState) start
     = (\<lparr>Diagnostics = [],
         State = Some (dbState\<lparr>PM_ID := StringValue ''r2'',
                               PM_FolderParent := StringValue ''Nowhere''\<rparr>)\<rparr>,
        \<lparr>remote = 4,
          calls = [GetResourceCall ''r1'', DeleteResourceCall ''r1'', GetFoldersCall,
                   CreateResourceCall '''' ''db'' ''admin'' ''https://db.example.com'' ''x''
                     '''']\<rparr>)"
  using C10_recreation_parent_not_found
    [where c = "fixedClient healthy" and w = start
       and respF = "tracked infraState" and pdF = "[]" and sdF = "[]" and stateF = infraState
       and planF = "infraState\<lparr>FM_FolderParent := StringValue ''Nowhere''\<rparr>"
       and curF = infra and ?r1F.0 = 1 and ?r2F.0 = 2 and nF = "''Nowhere''" and fsF = "[infra]"
       and ?r3F.0 = 3 and resF = "Inr (infra\<lparr>Folder_ID := ''f2''\<rparr>)" and ?r4F.0 = 4
       and respS = "tracked dbState" and pdS = "[]" and sdS = "[]" and stateS = dbState
       and planS = "dbState\<lparr>PM_FolderParent := StringValue ''Nowhere''\<rparr>"
       and curS = db and ?r1S.0 = 1 and ?r2S.0 = 2 and nS = "''Nowhere''" and fsS = "[infra]"
       and ?r3S.0 = 3 and resS = "Inr ''r2''" and ?r4S.0 = 4
       and ?w4S.0 = "\<lparr>remote = 4,
           calls = [GetResourceCall ''r1'', DeleteResourceCall ''r1'', GetFoldersCall,
                    CreateResourceCall '''' ''db'' ''admin'' ''https://db.example.com'' ''x''
                      '''']\<rparr>"]
  by (simp add: fixedClient_def healthy_def tracked_def start_def infraState_def dbState_def
        infra_def db_def FolderResource_needsRecreation_def PasswordResource_needsRecreation_def
        shareWithGroup_def)

end
